theory Spec2Isabelle
  imports Complex_Main
begin

section \<open>Vertex ambient-occlusion baker (BakeAOVertex.js)\<close>

text \<open>
  A shallow embedding of the Cheetah3D script \<^verbatim>\<open>BakeAOVertex.js\<close>.

  Numbers. The script computes with JavaScript doubles. Coordinates, lengths and the
  parameters are modelled as exact reals (no rounding, no overflow); a theorem below is
  a statement about this exact-arithmetic reading of the script unless it names the
  double-arithmetic version of the triangle test, which rounds every operation. The one
  place where the script can leave the finite numbers is the occlusion scalar
  (\<^verbatim>\<open>occluded / totalSamples\<close> with no samples, \<^verbatim>\<open>Math.pow\<close>): that value is a
  \<open>jsnum\<close>, with \<open>NaN\<close> and the two infinities as values of their own. Signed zeros are
  not distinguished.

  Loops. A loop \<^verbatim>\<open>for (var i = 0; i < n; i++)\<close> whose bound does not change while it
  runs is a recursion over the index list \<open>[0..<n]\<close>; a \<^verbatim>\<open>return\<close>, \<^verbatim>\<open>break\<close> or
  \<^verbatim>\<open>continue\<close> inside it is the branch that stops or skips the recursion.
\<close>

subsection \<open>Host types: vectors\<close>

datatype vec3 = Vec3D (x3: real) (y3: real) (z3: real)

text \<open>Modelled from the spec: the host's \<^verbatim>\<open>Vec3D\<close> methods (add, sub, scalar multiply,
  dot, cross, norm) are not part of the script; they are the usual operations on
  triples.\<close>

definition Vec3D_add :: "vec3 \<Rightarrow> vec3 \<Rightarrow> vec3" where
  "Vec3D_add a b = Vec3D (x3 a + x3 b) (y3 a + y3 b) (z3 a + z3 b)"

definition Vec3D_sub :: "vec3 \<Rightarrow> vec3 \<Rightarrow> vec3" where
  "Vec3D_sub a b = Vec3D (x3 a - x3 b) (y3 a - y3 b) (z3 a - z3 b)"

definition Vec3D_multiply :: "vec3 \<Rightarrow> real \<Rightarrow> vec3" where
  "Vec3D_multiply a k = Vec3D (x3 a * k) (y3 a * k) (z3 a * k)"

definition Vec3D_dot :: "vec3 \<Rightarrow> vec3 \<Rightarrow> real" where
  "Vec3D_dot a b = x3 a * x3 b + y3 a * y3 b + z3 a * z3 b"

definition Vec3D_cross :: "vec3 \<Rightarrow> vec3 \<Rightarrow> vec3" where
  "Vec3D_cross a b =
     Vec3D (y3 a * z3 b - z3 a * y3 b)
           (z3 a * x3 b - x3 a * z3 b)
           (x3 a * y3 b - y3 a * x3 b)"

definition Vec3D_norm :: "vec3 \<Rightarrow> real" where
  "Vec3D_norm a = sqrt (x3 a * x3 a + y3 a * y3 a + z3 a * z3 a)"

subsection \<open>Ray against triangle (Moeller-Trumbore)\<close>

definition epsilon :: real where
  "epsilon = 1 / 1000000"

definition rayTriangleIntersect ::
  "vec3 \<Rightarrow> vec3 \<Rightarrow> real \<Rightarrow> vec3 \<Rightarrow> vec3 \<Rightarrow> vec3 \<Rightarrow> bool" where
  "rayTriangleIntersect rayStart rayDir rayLength v0 v1 v2 =
     (let edge1 = Vec3D_sub v1 v0;
          edge2 = Vec3D_sub v2 v0;
          h = Vec3D_cross rayDir edge2;
          a = Vec3D_dot edge1 h
      in if a > - epsilon \<and> a < epsilon then False
         else
           let f = 1 / a;
               s = Vec3D_sub rayStart v0;
               u = f * Vec3D_dot s h
           in if u < 0 \<or> u > 1 then False
              else
                let q = Vec3D_cross s edge1;
                    v = f * Vec3D_dot rayDir q
                in if v < 0 \<or> u + v > 1 then False
                   else
                     let t = f * Vec3D_dot edge2 q
                     in if t > epsilon \<and> t < rayLength then True else False)"

text \<open>The acceptance condition in the words of the specification (section 4.4):
  with \<open>a = e1 \<cdot> (dir \<times> e2)\<close>, \<open>f = 1 / a\<close>, \<open>s = start - v0\<close>, \<open>q = s \<times> e1\<close>, the test
  accepts when \<open>\<bar>a\<bar> \<ge> \<epsilon>\<close>, \<open>u = f (s \<cdot> h)\<close> is in \<open>[0, 1]\<close>, \<open>v = f (dir \<cdot> q)\<close> is
  non-negative with \<open>u + v \<le> 1\<close>, and \<open>t = f (e2 \<cdot> q)\<close> has \<open>\<epsilon> < t < rayLength\<close>.\<close>

definition mt_a :: "vec3 \<Rightarrow> vec3 \<Rightarrow> vec3 \<Rightarrow> vec3 \<Rightarrow> real" where
  "mt_a rayDir v0 v1 v2 =
     Vec3D_dot (Vec3D_sub v1 v0) (Vec3D_cross rayDir (Vec3D_sub v2 v0))"

definition mt_u :: "vec3 \<Rightarrow> vec3 \<Rightarrow> vec3 \<Rightarrow> vec3 \<Rightarrow> vec3 \<Rightarrow> real" where
  "mt_u rayStart rayDir v0 v1 v2 =
     (1 / mt_a rayDir v0 v1 v2) *
       Vec3D_dot (Vec3D_sub rayStart v0) (Vec3D_cross rayDir (Vec3D_sub v2 v0))"

definition mt_v :: "vec3 \<Rightarrow> vec3 \<Rightarrow> vec3 \<Rightarrow> vec3 \<Rightarrow> vec3 \<Rightarrow> real" where
  "mt_v rayStart rayDir v0 v1 v2 =
     (1 / mt_a rayDir v0 v1 v2) *
       Vec3D_dot rayDir (Vec3D_cross (Vec3D_sub rayStart v0) (Vec3D_sub v1 v0))"

definition mt_t :: "vec3 \<Rightarrow> vec3 \<Rightarrow> vec3 \<Rightarrow> vec3 \<Rightarrow> vec3 \<Rightarrow> real" where
  "mt_t rayStart rayDir v0 v1 v2 =
     (1 / mt_a rayDir v0 v1 v2) *
       Vec3D_dot (Vec3D_sub v2 v0) (Vec3D_cross (Vec3D_sub rayStart v0) (Vec3D_sub v1 v0))"

definition spec_intersects ::
  "vec3 \<Rightarrow> vec3 \<Rightarrow> real \<Rightarrow> vec3 \<Rightarrow> vec3 \<Rightarrow> vec3 \<Rightarrow> bool" where
  "spec_intersects rayStart rayDir rayLength v0 v1 v2 =
     (\<bar>mt_a rayDir v0 v1 v2\<bar> \<ge> epsilon
      \<and> 0 \<le> mt_u rayStart rayDir v0 v1 v2 \<and> mt_u rayStart rayDir v0 v1 v2 \<le> 1
      \<and> 0 \<le> mt_v rayStart rayDir v0 v1 v2
      \<and> mt_u rayStart rayDir v0 v1 v2 + mt_v rayStart rayDir v0 v1 v2 \<le> 1
      \<and> epsilon < mt_t rayStart rayDir v0 v1 v2
      \<and> mt_t rayStart rayDir v0 v1 v2 < rayLength)"

subsection \<open>JavaScript numbers that may leave the finite range\<close>

datatype jsnum = Num real | PosInf | NegInf | NaN

text \<open>\<^verbatim>\<open>a / b\<close> on two finite numbers.\<close>

definition js_div :: "real \<Rightarrow> real \<Rightarrow> jsnum" where
  "js_div a b =
     (if b \<noteq> 0 then Num (a / b)
      else if a = 0 then NaN
      else if a > 0 then PosInf else NegInf)"

text \<open>\<^verbatim>\<open>a - b\<close>.\<close>

fun js_sub :: "jsnum \<Rightarrow> jsnum \<Rightarrow> jsnum" where
  "js_sub (Num a) (Num b) = Num (a - b)"
| "js_sub NaN b = NaN"
| "js_sub a NaN = NaN"
| "js_sub PosInf PosInf = NaN"
| "js_sub NegInf NegInf = NaN"
| "js_sub PosInf b = PosInf"
| "js_sub NegInf b = NegInf"
| "js_sub (Num a) PosInf = NegInf"
| "js_sub (Num a) NegInf = PosInf"

text \<open>\<^verbatim>\<open>Math.pow(base, exponent)\<close> for a finite exponent: 1 for exponent 0 whatever the
  base, \<open>NaN\<close> for a negative base with a fractional exponent.\<close>

definition Math_pow :: "jsnum \<Rightarrow> real \<Rightarrow> jsnum" where
  "Math_pow base e =
     (if e = 0 then Num 1
      else case base of
        NaN \<Rightarrow> NaN
      | Num b \<Rightarrow>
          (if b > 0 then Num (b powr e)
           else if b = 0 then (if e > 0 then Num 0 else PosInf)
           else if e = of_int \<lfloor>e\<rfloor>
             then Num (if even \<lfloor>e\<rfloor> then (- b) powr e else - ((- b) powr e))
           else NaN)
      | PosInf \<Rightarrow> (if e > 0 then PosInf else Num 0)
      | NegInf \<Rightarrow>
          (if e > 0 then (if e = of_int \<lfloor>e\<rfloor> \<and> odd \<lfloor>e\<rfloor> then NegInf else PosInf)
           else Num 0))"

datatype vec4 = Vec4D (x4: jsnum) (y4: jsnum) (z4: jsnum) (w4: jsnum)

subsection \<open>Host types: matrices, polygon meshes, the random source\<close>

text \<open>Modelled from the spec: the host's \<^verbatim>\<open>Mat4D\<close> is not part of the script. A matrix
  is the point map of \<^verbatim>\<open>m.multiply(p)\<close> together with the point map of
  \<^verbatim>\<open>m.inverse().multiply(p)\<close>, whatever the host computes for them.\<close>

datatype mat4 = Mat4D (Mat4D_multiply: "vec3 \<Rightarrow> vec3") (Mat4D_inverse_multiply: "vec3 \<Rightarrow> vec3")

definition Mat4D_inverse :: "mat4 \<Rightarrow> mat4" where
  "Mat4D_inverse m = Mat4D (Mat4D_inverse_multiply m) (Mat4D_multiply m)"

text \<open>Modelled from the spec: the host's polygon object (\<^verbatim>\<open>core\<close>), through the
  accessors the script calls. \<open>normal\<close> is the host's face normal of a polygon,
  \<open>uvCoord\<close> the per-corner attribute that \<^verbatim>\<open>setUVCoord\<close> writes.\<close>

record core =
  vertexCount :: nat
  vertex :: "nat \<Rightarrow> vec3"
  polygonCount :: nat
  polygonSize :: "nat \<Rightarrow> nat"
  vertexIndex :: "nat \<Rightarrow> nat \<Rightarrow> nat"
  normal :: "nat \<Rightarrow> vec3"
  uvCoord :: "nat \<Rightarrow> nat \<Rightarrow> vec4"

definition setUVCoord :: "core \<Rightarrow> nat \<Rightarrow> nat \<Rightarrow> vec4 \<Rightarrow> core" where
  "setUVCoord c p k val = c\<lparr>uvCoord := (uvCoord c)(p := (uvCoord c p)(k := val))\<rparr>"

text \<open>\<^verbatim>\<open>Math.random()\<close>: the source of draws is a sequence of reals and the position
  of the next draw.\<close>

type_synonym rng = "(nat \<Rightarrow> real) \<times> nat"

definition Math_random :: "rng \<Rightarrow> real \<times> rng" where
  "Math_random g = (fst g (snd g), (fst g, Suc (snd g)))"

text \<open>An entry of \<^verbatim>\<open>allMeshes\<close>. The script also stores the object itself in the
  entry and never reads it. The entry holds the mesh as it is when it is collected: the
  bake writes nothing but \<open>uvCoord\<close>, which the intersection never reads, so the
  entry answers as the host's shared object would.\<close>

record mesh =
  mesh_core :: core
  mesh_matrix :: mat4

subsection \<open>Ray against all meshes\<close>

fun rayIntersects_triangles ::
  "core \<Rightarrow> vec3 \<Rightarrow> vec3 \<Rightarrow> real \<Rightarrow> nat \<Rightarrow> nat list \<Rightarrow> bool" where
  "rayIntersects_triangles c localStart localDir localLength p [] = False"
| "rayIntersects_triangles c localStart localDir localLength p (t # ts) =
     (let v0 = vertex c (vertexIndex c p 0);
          v1 = vertex c (vertexIndex c p (t + 1));
          v2 = vertex c (vertexIndex c p (t + 2))
      in if rayTriangleIntersect localStart localDir localLength v0 v1 v2 then True
         else rayIntersects_triangles c localStart localDir localLength p ts)"

text \<open>\<^verbatim>\<open>t < polySize - 2\<close>: for a polygon of fewer than two corners the bound is
  negative in the script and 0 here; the loop does not run in either.\<close>

fun rayIntersects_polygons ::
  "core \<Rightarrow> vec3 \<Rightarrow> vec3 \<Rightarrow> real \<Rightarrow> nat list \<Rightarrow> bool" where
  "rayIntersects_polygons c localStart localDir localLength [] = False"
| "rayIntersects_polygons c localStart localDir localLength (p # ps) =
     (let polySize = polygonSize c p
      in if rayIntersects_triangles c localStart localDir localLength p [0..<polySize - 2]
         then True
         else rayIntersects_polygons c localStart localDir localLength ps)"

fun rayIntersects_meshes :: "vec3 \<Rightarrow> vec3 \<Rightarrow> mesh list \<Rightarrow> bool" where
  "rayIntersects_meshes rayStart rayEnd [] = False"
| "rayIntersects_meshes rayStart rayEnd (m # meshes) =
     (let c = mesh_core m;
          invMatrix = Mat4D_inverse (mesh_matrix m);
          localStart = Mat4D_multiply invMatrix rayStart;
          localEnd = Mat4D_multiply invMatrix rayEnd;
          localDir = Vec3D_sub localEnd localStart;
          localLength = Vec3D_norm localDir
      in if localLength = 0 then rayIntersects_meshes rayStart rayEnd meshes
         else
           let localDir = Vec3D_multiply localDir (1 / localLength)
           in if rayIntersects_polygons c localStart localDir localLength
                   [0..<polygonCount c]
              then True
              else rayIntersects_meshes rayStart rayEnd meshes)"

text \<open>The normalised world direction that the script computes after the length check
  is never read.\<close>

definition rayIntersectsAnyMesh :: "vec3 \<Rightarrow> vec3 \<Rightarrow> mesh list \<Rightarrow> bool" where
  "rayIntersectsAnyMesh rayStart rayEnd meshes =
     (let rayDir = Vec3D_sub rayEnd rayStart;
          rayLength = Vec3D_norm rayDir
      in if rayLength = 0 then False
         else rayIntersects_meshes rayStart rayEnd meshes)"

subsection \<open>Hemisphere samples\<close>

fun generateHemisphereSamples_loop :: "nat list \<Rightarrow> vec3 list \<Rightarrow> rng \<Rightarrow> vec3 list \<times> rng" where
  "generateHemisphereSamples_loop [] samples g = (samples, g)"
| "generateHemisphereSamples_loop (i # rest) samples g =
     (let (u, g1) = Math_random g;
          (v, g2) = Math_random g1;
          theta = 2 * pi * u;
          phi = arccos (sqrt v);
          x = sin phi * cos theta;
          y = cos phi;
          z = sin phi * sin theta
      in generateHemisphereSamples_loop rest (samples @ [Vec3D x y z]) g2)"

definition generateHemisphereSamples :: "nat \<Rightarrow> rng \<Rightarrow> vec3 list \<times> rng" where
  "generateHemisphereSamples count g = generateHemisphereSamples_loop [0..<count] [] g"

subsection \<open>Vertex normals\<close>

text \<open>The inner loop of \<^verbatim>\<open>calculateVertexNormal\<close>: does a corner of polygon \<open>p\<close>
  reference the vertex? It stops at the first corner that does (\<^verbatim>\<open>break\<close>).\<close>

fun polygonUsesVertex :: "core \<Rightarrow> nat \<Rightarrow> nat \<Rightarrow> nat list \<Rightarrow> bool" where
  "polygonUsesVertex c vi p [] = False"
| "polygonUsesVertex c vi p (k # ks) =
     (if vertexIndex c p k = vi then True else polygonUsesVertex c vi p ks)"

fun calculateVertexNormal_loop :: "core \<Rightarrow> nat \<Rightarrow> nat list \<Rightarrow> vec3 \<times> nat \<Rightarrow> vec3 \<times> nat" where
  "calculateVertexNormal_loop c vi [] acc = acc"
| "calculateVertexNormal_loop c vi (p # ps) (nrm, faceCount) =
     (let polySize = polygonSize c p
      in if polygonUsesVertex c vi p [0..<polySize]
         then calculateVertexNormal_loop c vi ps (Vec3D_add nrm (normal c p), faceCount + 1)
         else calculateVertexNormal_loop c vi ps (nrm, faceCount))"

definition calculateVertexNormal :: "core \<Rightarrow> nat \<Rightarrow> mat4 \<Rightarrow> vec3" where
  "calculateVertexNormal c vi matrix =
     (let (nrm, faceCount) =
            calculateVertexNormal_loop c vi [0..<polygonCount c] (Vec3D 0 0 0, 0)
      in if faceCount > 0 then
           let nrm = Vec3D_multiply nrm (1 / real faceCount);
               nrm = Vec3D_sub (Mat4D_multiply matrix nrm)
                       (Mat4D_multiply matrix (Vec3D 0 0 0));
               len = Vec3D_norm nrm
           in if len > 0 then Vec3D_multiply nrm (1 / len) else nrm
         else Vec3D 0 1 0)"

subsection \<open>Occlusion of one vertex\<close>

text \<open>The tangent and the bitangent that \<^verbatim>\<open>calculateOcclusion\<close> builds before its
  loop.\<close>

definition tangentBasis :: "vec3 \<Rightarrow> vec3 \<times> vec3" where
  "tangentBasis nrm =
     (let up = Vec3D 0 1 0;
          up = (if \<bar>Vec3D_dot nrm up\<bar> > 9 / 10 then Vec3D 1 0 0 else up);
          tangent = Vec3D_cross nrm up;
          len = Vec3D_norm tangent;
          tangent = (if len > 0 then Vec3D_multiply tangent (1 / len) else tangent);
          bitangent = Vec3D_cross nrm tangent
      in (tangent, bitangent))"

text \<open>The body of the loop up to its test: the ray of one sample direction, and whether
  anything is in its way.\<close>

definition sampleRay ::
  "vec3 \<Rightarrow> vec3 \<Rightarrow> vec3 \<Rightarrow> vec3 \<Rightarrow> real \<Rightarrow> real \<Rightarrow> vec3 \<Rightarrow> vec3 \<times> vec3" where
  "sampleRay tangent nrm bitangent worldPos maxDistance bias sampleDir =
     (let worldDir = Vec3D
            (x3 tangent * x3 sampleDir + x3 nrm * y3 sampleDir + x3 bitangent * z3 sampleDir)
            (y3 tangent * x3 sampleDir + y3 nrm * y3 sampleDir + y3 bitangent * z3 sampleDir)
            (z3 tangent * x3 sampleDir + z3 nrm * y3 sampleDir + z3 bitangent * z3 sampleDir);
          rayStart = Vec3D_add worldPos (Vec3D_multiply nrm bias);
          rayEnd = Vec3D_add rayStart (Vec3D_multiply worldDir maxDistance)
      in (rayStart, rayEnd))"

definition sampleOccluded ::
  "vec3 \<Rightarrow> vec3 \<Rightarrow> vec3 \<Rightarrow> vec3 \<Rightarrow> mesh list \<Rightarrow> real \<Rightarrow> real \<Rightarrow> vec3 \<Rightarrow> bool" where
  "sampleOccluded tangent nrm bitangent worldPos allMeshes maxDistance bias sampleDir =
     (let (rayStart, rayEnd) = sampleRay tangent nrm bitangent worldPos maxDistance bias sampleDir
      in rayIntersectsAnyMesh rayStart rayEnd allMeshes)"

text \<open>The loop reads \<^verbatim>\<open>sampleDirections[s]\<close> for \<open>s\<close> from 0 to the length: a
  traversal of the list.\<close>

fun calculateOcclusion_loop ::
  "vec3 \<Rightarrow> vec3 \<Rightarrow> vec3 \<Rightarrow> vec3 \<Rightarrow> mesh list \<Rightarrow> real \<Rightarrow> real \<Rightarrow> vec3 list \<Rightarrow> nat \<Rightarrow> nat" where
  "calculateOcclusion_loop tangent nrm bitangent worldPos allMeshes maxDistance bias [] occluded =
     occluded"
| "calculateOcclusion_loop tangent nrm bitangent worldPos allMeshes maxDistance bias
     (sampleDir # rest) occluded =
     (if sampleOccluded tangent nrm bitangent worldPos allMeshes maxDistance bias sampleDir
      then calculateOcclusion_loop tangent nrm bitangent worldPos allMeshes maxDistance bias
             rest (occluded + 1)
      else calculateOcclusion_loop tangent nrm bitangent worldPos allMeshes maxDistance bias
             rest occluded)"

definition calculateOcclusion ::
  "vec3 \<Rightarrow> vec3 \<Rightarrow> vec3 list \<Rightarrow> mesh list \<Rightarrow> real \<Rightarrow> real \<Rightarrow> jsnum" where
  "calculateOcclusion worldPos nrm sampleDirections allMeshes maxDistance bias =
     (let totalSamples = length sampleDirections;
          (tangent, bitangent) = tangentBasis nrm;
          occluded =
            calculateOcclusion_loop tangent nrm bitangent worldPos allMeshes maxDistance bias
              sampleDirections 0
      in js_sub (Num 1) (js_div (real occluded) (real totalSamples)))"

subsection \<open>Writing the result\<close>

fun setVertexColor_corners :: "core \<Rightarrow> nat \<Rightarrow> vec4 \<Rightarrow> nat \<Rightarrow> nat list \<Rightarrow> core" where
  "setVertexColor_corners c vi color p [] = c"
| "setVertexColor_corners c vi color p (k # ks) =
     (if vertexIndex c p k = vi
      then setVertexColor_corners
             (setUVCoord c p k (Vec4D (x4 color) (Num 0) (Num 0) (Num 0))) vi color p ks
      else setVertexColor_corners c vi color p ks)"

fun setVertexColor_polygons :: "core \<Rightarrow> nat \<Rightarrow> vec4 \<Rightarrow> nat list \<Rightarrow> core" where
  "setVertexColor_polygons c vi color [] = c"
| "setVertexColor_polygons c vi color (p # ps) =
     (let polySize = polygonSize c p
      in setVertexColor_polygons
           (setVertexColor_corners c vi color p [0..<polySize]) vi color ps)"

definition setVertexColor :: "core \<Rightarrow> nat \<Rightarrow> vec4 \<Rightarrow> core" where
  "setVertexColor c vi color = setVertexColor_polygons c vi color [0..<polygonCount c]"

subsection \<open>Baking one mesh\<close>

text \<open>The power step and the inversion step of \<^verbatim>\<open>bakeMeshAO\<close>.\<close>

definition postProcess :: "jsnum \<Rightarrow> real \<Rightarrow> bool \<Rightarrow> jsnum" where
  "postProcess occlusion intensity invert =
     (let occlusion = Math_pow occlusion intensity
      in if invert then js_sub (Num 1) occlusion else occlusion)"

text \<open>The value of \<^verbatim>\<open>occlusion\<close> when the colour of vertex \<open>v\<close> is built.\<close>

definition vertexOcclusion ::
  "mat4 \<Rightarrow> core \<Rightarrow> nat \<Rightarrow> vec3 list \<Rightarrow> mesh list \<Rightarrow> real \<Rightarrow> real \<Rightarrow> real \<Rightarrow> bool \<Rightarrow> jsnum" where
  "vertexOcclusion meshMatrix c v sampleDirections allMeshes maxDistance bias intensity invert =
     (let vert = vertex c v;
          worldVertex = Mat4D_multiply meshMatrix vert;
          nrm = calculateVertexNormal c v meshMatrix;
          occlusion = calculateOcclusion worldVertex nrm sampleDirections allMeshes maxDistance bias
      in postProcess occlusion intensity invert)"

fun bakeMeshAO_loop ::
  "mat4 \<Rightarrow> vec3 list \<Rightarrow> mesh list \<Rightarrow> real \<Rightarrow> real \<Rightarrow> real \<Rightarrow> bool \<Rightarrow> nat list \<Rightarrow> core \<Rightarrow> core" where
  "bakeMeshAO_loop meshMatrix sampleDirections allMeshes maxDistance bias intensity invert [] c = c"
| "bakeMeshAO_loop meshMatrix sampleDirections allMeshes maxDistance bias intensity invert (v # vs) c =
     (let occlusion = vertexOcclusion meshMatrix c v sampleDirections allMeshes
                        maxDistance bias intensity invert;
          aoColor = Vec4D occlusion occlusion occlusion (Num 1)
      in bakeMeshAO_loop meshMatrix sampleDirections allMeshes maxDistance bias intensity invert
           vs (setVertexColor c v aoColor))"

text \<open>\<^verbatim>\<open>bakeMeshAO\<close> takes the object for its matrix only; the matrix is passed here.
  It returns the mesh as written and the random source as left.\<close>

definition bakeMeshAO ::
  "mat4 \<Rightarrow> core \<Rightarrow> mesh list \<Rightarrow> nat \<Rightarrow> real \<Rightarrow> real \<Rightarrow> real \<Rightarrow> bool \<Rightarrow> rng \<Rightarrow> core \<times> rng" where
  "bakeMeshAO meshMatrix c allMeshes sampleRays maxDistance bias intensity invert g =
     (let vCount = vertexCount c;
          (sampleDirections, g') = generateHemisphereSamples sampleRays g
      in (bakeMeshAO_loop meshMatrix sampleDirections allMeshes maxDistance bias intensity invert
            [0..<vCount] c, g'))"

subsection \<open>The scene and the bake\<close>

datatype family = NGONFAMILY | OTHERFAMILY

text \<open>Modelled from the spec: a node of the host's scene graph, through the accessors
  the script calls: its family, \<^verbatim>\<open>core()\<close>, \<^verbatim>\<open>modCore()\<close> (\<open>None\<close> for a null
  result), \<^verbatim>\<open>obj2WorldMatrix()\<close>, its name and its children.\<close>

datatype obj =
  Obj (obj_family: family) (obj_core: "core option") (obj_modCore: "core option")
      (obj2WorldMatrix: mat4) (obj_name: string) (obj_children: "obj list")

text \<open>What the host is asked to do, in the order of the calls.\<close>

datatype event =
    MessageBox string string
  | PrintStarting
  | PrintSampleRays nat
  | PrintMaxDistance real
  | PrintProcessedMesh string
  | PrintComplete nat
  | RecordGeometryForUndo string
  | Update string
  | RedrawAll

fun collectAllMeshes :: "obj \<Rightarrow> mesh list \<Rightarrow> mesh list"
  and collectAllMeshes_children :: "obj list \<Rightarrow> mesh list \<Rightarrow> mesh list" where
  "collectAllMeshes (Obj fam co mco matrix nm kids) meshArray =
     (let meshArray =
            (if fam = NGONFAMILY then
               (case mco of
                  Some c \<Rightarrow>
                    if vertexCount c > 0
                    then meshArray @ [\<lparr>mesh_core = c, mesh_matrix = matrix\<rparr>]
                    else meshArray
                | None \<Rightarrow> meshArray)
             else meshArray)
      in collectAllMeshes_children kids meshArray)"
| "collectAllMeshes_children [] meshArray = meshArray"
| "collectAllMeshes_children (child # rest) meshArray =
     collectAllMeshes_children rest (collectAllMeshes child meshArray)"

text \<open>\<^verbatim>\<open>processMeshesRecursively\<close> writes into the objects it visits: it returns the
  object as written, the count, the random source and the events.\<close>

fun processMeshesRecursively ::
  "obj \<Rightarrow> mesh list \<Rightarrow> nat \<Rightarrow> real \<Rightarrow> real \<Rightarrow> real \<Rightarrow> bool \<Rightarrow> nat \<Rightarrow> rng \<times> event list
     \<Rightarrow> obj \<times> nat \<times> rng \<times> event list"
  and processMeshes_children ::
  "obj list \<Rightarrow> mesh list \<Rightarrow> nat \<Rightarrow> real \<Rightarrow> real \<Rightarrow> real \<Rightarrow> bool \<Rightarrow> nat \<Rightarrow> rng \<times> event list
     \<Rightarrow> obj list \<times> nat \<times> rng \<times> event list" where
  "processMeshesRecursively (Obj fam co mco matrix nm kids) allMeshes sampleRays maxDistance bias
     intensity invert count (g, ev) =
     (let (co', count', g', ev') =
            (if fam = NGONFAMILY then
               (case co of
                  Some c \<Rightarrow>
                    if vertexCount c > 0 then
                      let ev1 = ev @ [RecordGeometryForUndo nm];
                          (c', g1) = bakeMeshAO matrix c allMeshes sampleRays maxDistance bias
                                       intensity invert g;
                          ev2 = ev1 @ [Update nm]
                      in (Some c', count + 1, g1, ev2 @ [PrintProcessedMesh nm])
                    else (co, count, g, ev)
                | None \<Rightarrow> (co, count, g, ev))
             else (co, count, g, ev));
          (kids', count'', st'') =
            processMeshes_children kids allMeshes sampleRays maxDistance bias intensity invert
              count' (g', ev')
      in (Obj fam co' mco matrix nm kids', count'', st''))"
| "processMeshes_children [] allMeshes sampleRays maxDistance bias intensity invert count st =
     ([], count, st)"
| "processMeshes_children (child # rest) allMeshes sampleRays maxDistance bias intensity invert
     count st =
     (let (child', count', st') =
            processMeshesRecursively child allMeshes sampleRays maxDistance bias intensity invert
              count st;
          (rest', count'', st'') =
            processMeshes_children rest allMeshes sampleRays maxDistance bias intensity invert
              count' st'
      in (child' # rest', count'', st''))"

text \<open>The document: the scene under \<^verbatim>\<open>doc.root()\<close> and the selection, as the path
  of child indices from the root to the selected object (\<open>None\<close>: nothing is
  selected).\<close>

fun objAt :: "obj \<Rightarrow> nat list \<Rightarrow> obj option"
  and childAt :: "obj list \<Rightarrow> nat \<Rightarrow> nat list \<Rightarrow> obj option" where
  "objAt ob [] = Some ob"
| "objAt (Obj fam co mco matrix nm kids) (i # path) = childAt kids i path"
| "childAt [] i path = None"
| "childAt (child # rest) 0 path = objAt child path"
| "childAt (child # rest) (Suc i) path = childAt rest i path"

fun replaceAt :: "obj \<Rightarrow> nat list \<Rightarrow> obj \<Rightarrow> obj"
  and replaceChildAt :: "obj list \<Rightarrow> nat \<Rightarrow> nat list \<Rightarrow> obj \<Rightarrow> obj list" where
  "replaceAt ob [] new = new"
| "replaceAt (Obj fam co mco matrix nm kids) (i # path) new =
     Obj fam co mco matrix nm (replaceChildAt kids i path new)"
| "replaceChildAt [] i path new = []"
| "replaceChildAt (child # rest) 0 path new = replaceAt child path new # rest"
| "replaceChildAt (child # rest) (Suc i) path new = child # replaceChildAt rest i path new"

record host =
  root :: obj
  selection :: "nat list option"
  random :: rng
  events :: "event list"

text \<open>\<^verbatim>\<open>doc.selectedObject()\<close>: a reference to an object of the scene, here the
  object with its path; \<open>None\<close> is the script's null.\<close>

definition selectedObject :: "host \<Rightarrow> (nat list \<times> obj) option" where
  "selectedObject h =
     (case selection h of
        None \<Rightarrow> None
      | Some path \<Rightarrow> (case objAt (root h) path of None \<Rightarrow> None | Some ob \<Rightarrow> Some (path, ob)))"

text \<open>The parameters of the tool, as \<^verbatim>\<open>tool.getParameter\<close> returns them.\<close>

record tool =
  tool_sampleRays :: nat
  tool_maxDistance :: real
  tool_bias :: real
  tool_intensity :: real
  tool_invert :: bool

definition bakeAmbientOcclusion :: "tool \<Rightarrow> host \<Rightarrow> host" where
  "bakeAmbientOcclusion t h =
     (case selectedObject h of
        None \<Rightarrow> h\<lparr>events := events h @ [MessageBox ''Error'' ''Please select an object first.'']\<rparr>
      | Some (path, selectedObj) \<Rightarrow>
          let sampleRays = tool_sampleRays t;
              maxDistance = tool_maxDistance t;
              bias = tool_bias t;
              intensity = tool_intensity t;
              invert = tool_invert t;
              ev = events h @ [PrintStarting, PrintSampleRays sampleRays,
                               PrintMaxDistance maxDistance];
              allMeshes = collectAllMeshes (root h) [];
              (selectedObj', processedCount, g', ev') =
                processMeshesRecursively selectedObj allMeshes sampleRays maxDistance bias
                  intensity invert 0 (random h, ev)
          in h\<lparr>root := replaceAt (root h) path selectedObj',
                random := g',
                events := ev' @ [RedrawAll, PrintComplete processedCount]\<rparr>)"

subsection \<open>The specification's formula for a sample direction\<close>

text \<open>Section 4.1 of the specification: azimuth \<open>\<theta> = 2\<pi>u\<close>, elevation
  \<open>\<phi> = acos (\<surd>v)\<close>, direction \<open>(sin \<phi> cos \<theta>, cos \<phi>, sin \<phi> sin \<theta>)\<close>.\<close>

definition hemisphereDirection :: "real \<Rightarrow> real \<Rightarrow> vec3" where
  "hemisphereDirection u v =
     (let theta = 2 * pi * u; phi = arccos (sqrt v)
      in Vec3D (sin phi * cos theta) (cos phi) (sin phi * sin theta))"

subsection \<open>The specification's words for the vertex normal\<close>

text \<open>Section 4.2 of the specification: the polygons that reference the vertex in one of
  their corners, and the average of their face normals, transformed as a vector by the
  mesh's matrix.\<close>

definition referencesVertex :: "core \<Rightarrow> nat \<Rightarrow> nat \<Rightarrow> bool" where
  "referencesVertex c vi p = (\<exists>k \<in> set [0..<polygonSize c p]. vertexIndex c p k = vi)"

definition incidentPolygons :: "core \<Rightarrow> nat \<Rightarrow> nat list" where
  "incidentPolygons c vi = filter (referencesVertex c vi) [0..<polygonCount c]"

definition averagedWorldNormal :: "core \<Rightarrow> nat \<Rightarrow> mat4 \<Rightarrow> vec3" where
  "averagedWorldNormal c vi matrix =
     (let faces = incidentPolygons c vi;
          total = foldl Vec3D_add (Vec3D 0 0 0) (map (normal c) faces);
          averaged = Vec3D_multiply total (1 / real (length faces))
      in Vec3D_sub (Mat4D_multiply matrix averaged) (Mat4D_multiply matrix (Vec3D 0 0 0)))"

subsection \<open>Example scenes\<close>

definition identityMatrix :: mat4 where
  "identityMatrix = Mat4D (\<lambda>p. p) (\<lambda>p. p)"

definition blankUV :: "nat \<Rightarrow> nat \<Rightarrow> vec4" where
  "blankUV = (\<lambda>p k. Vec4D (Num 0) (Num 0) (Num 0) (Num 0))"

text \<open>One triangle in the plane \<open>z = 0\<close>; its face normal is not normalised.\<close>

definition singleTriangle :: core where
  "singleTriangle =
     \<lparr>vertexCount = 3,
      vertex = (\<lambda>i. if i = 0 then Vec3D 0 0 0 else if i = 1 then Vec3D 1 0 0 else Vec3D 0 1 0),
      polygonCount = 1,
      polygonSize = (\<lambda>p. 3),
      vertexIndex = (\<lambda>p k. k),
      normal = (\<lambda>p. Vec3D 0 0 2),
      uvCoord = blankUV\<rparr>"

text \<open>The same triangle twice, the second time with the opposite winding: a
  double-sided face, whose two face normals cancel.\<close>

definition doubleSidedTriangle :: core where
  "doubleSidedTriangle =
     \<lparr>vertexCount = 3,
      vertex = (\<lambda>i. if i = 0 then Vec3D 0 0 0 else if i = 1 then Vec3D 1 0 0 else Vec3D 0 1 0),
      polygonCount = 2,
      polygonSize = (\<lambda>p. 3),
      vertexIndex = (\<lambda>p k. if p = 0 then k else 2 - k),
      normal = (\<lambda>p. if p = 0 then Vec3D 0 0 1 else Vec3D 0 0 (- 1)),
      uvCoord = blankUV\<rparr>"

text \<open>The single triangle as an occluder, in place; and the same triangle under a matrix
  whose inverse sends every point to the origin.\<close>

definition triangleMesh :: mesh where
  "triangleMesh = \<lparr>mesh_core = singleTriangle, mesh_matrix = identityMatrix\<rparr>"

definition collapsedMesh :: mesh where
  "collapsedMesh = \<lparr>mesh_core = singleTriangle,
                    mesh_matrix = Mat4D (\<lambda>p. Vec3D 0 0 0) (\<lambda>p. Vec3D 0 0 0)\<rparr>"

text \<open>The number of objects under a node that \<^verbatim>\<open>processMeshesRecursively\<close> bakes: the
  polygon objects with a core of at least one vertex.\<close>

fun meshCount :: "obj \<Rightarrow> nat" and meshCount_children :: "obj list \<Rightarrow> nat" where
  "meshCount (Obj fam co mco matrix nm kids) =
     (if fam = NGONFAMILY \<and> (case co of Some c \<Rightarrow> vertexCount c > 0 | None \<Rightarrow> False)
      then 1 else 0) + meshCount_children kids"
| "meshCount_children [] = 0"
| "meshCount_children (child # rest) = meshCount child + meshCount_children rest"

text \<open>A random source whose first sixteen draws are 0 and whose later draws are 1/4; a
  scene of a triangle with a second triangle as its child; the tool at its default
  parameters except for eight sample rays; a document with the root selected, and one
  with nothing selected.\<close>

definition stepDraws :: "nat \<Rightarrow> real" where
  "stepDraws i = (if i < 16 then 0 else 1 / 4)"

definition twoMeshScene :: obj where
  "twoMeshScene =
     Obj NGONFAMILY (Some singleTriangle) (Some singleTriangle) identityMatrix ''parent''
       [Obj NGONFAMILY (Some singleTriangle) (Some singleTriangle) identityMatrix ''child'' []]"

definition defaultTool :: tool where
  "defaultTool = \<lparr>tool_sampleRays = 8, tool_maxDistance = 1, tool_bias = 1 / 100,
                   tool_intensity = 1, tool_invert = False\<rparr>"

definition twoMeshHost :: host where
  "twoMeshHost = \<lparr>root = twoMeshScene, selection = Some [], random = (stepDraws, 0), events = []\<rparr>"

definition nothingSelected :: host where
  "nothingSelected = \<lparr>root = twoMeshScene, selection = None, random = (stepDraws, 0), events = []\<rparr>"

subsection \<open>The specification's words for a hit\<close>

text \<open>The point of the ray at parameter \<open>t\<close>, and the point of the triangle's plane with
  barycentric coordinates \<open>u\<close> and \<open>v\<close> relative to the first vertex: the ray meets the
  triangle where the two are equal with \<open>u \<ge> 0\<close>, \<open>v \<ge> 0\<close> and \<open>u + v \<le> 1\<close>.\<close>

definition pointOnRay :: "vec3 \<Rightarrow> vec3 \<Rightarrow> real \<Rightarrow> vec3" where
  "pointOnRay rayStart rayDir t = Vec3D_add rayStart (Vec3D_multiply rayDir t)"

definition pointInPlane :: "vec3 \<Rightarrow> vec3 \<Rightarrow> vec3 \<Rightarrow> real \<Rightarrow> real \<Rightarrow> vec3" where
  "pointInPlane va vb vc u v =
     Vec3D_add va (Vec3D_add (Vec3D_multiply (Vec3D_sub vb va) u)
                             (Vec3D_multiply (Vec3D_sub vc va) v))"

subsection \<open>The triangle test in double arithmetic\<close>

text \<open>JavaScript numbers are IEEE 754 binary64 values. \<open>binary64\<close> rounds a real to
  the nearest number with a 53-bit significand, ties to the even significand; overflow
  and subnormal numbers are left out (the values used below are far from both). Each
  arithmetic operation of the script is the exact operation followed by this rounding.\<close>

definition roundHalfEven :: "real \<Rightarrow> int" where
  "roundHalfEven r =
     (let f = \<lfloor>r\<rfloor>
      in if r - of_int f < 1 / 2 then f
         else if 1 / 2 < r - of_int f then f + 1
         else if even f then f else f + 1)"

definition binary64 :: "real \<Rightarrow> real" where
  "binary64 x =
     (if x = 0 then 0
      else let e = \<lfloor>log 2 \<bar>x\<bar>\<rfloor> - 52
           in of_int (roundHalfEven (x / 2 powr of_int e)) * 2 powr of_int e)"

definition double_add :: "real \<Rightarrow> real \<Rightarrow> real" where
  "double_add a b = binary64 (a + b)"

definition double_sub :: "real \<Rightarrow> real \<Rightarrow> real" where
  "double_sub a b = binary64 (a - b)"

definition double_mul :: "real \<Rightarrow> real \<Rightarrow> real" where
  "double_mul a b = binary64 (a * b)"

definition double_div :: "real \<Rightarrow> real \<Rightarrow> real" where
  "double_div a b = binary64 (a / b)"

text \<open>Modelled from the spec: the host's \<^verbatim>\<open>Vec3D\<close> methods again, with every operation
  rounded, sums taken from left to right.\<close>

definition Vec3D_sub_double :: "vec3 \<Rightarrow> vec3 \<Rightarrow> vec3" where
  "Vec3D_sub_double a b =
     Vec3D (double_sub (x3 a) (x3 b)) (double_sub (y3 a) (y3 b)) (double_sub (z3 a) (z3 b))"

definition Vec3D_dot_double :: "vec3 \<Rightarrow> vec3 \<Rightarrow> real" where
  "Vec3D_dot_double a b =
     double_add (double_add (double_mul (x3 a) (x3 b)) (double_mul (y3 a) (y3 b)))
       (double_mul (z3 a) (z3 b))"

definition Vec3D_cross_double :: "vec3 \<Rightarrow> vec3 \<Rightarrow> vec3" where
  "Vec3D_cross_double a b =
     Vec3D (double_sub (double_mul (y3 a) (z3 b)) (double_mul (z3 a) (y3 b)))
           (double_sub (double_mul (z3 a) (x3 b)) (double_mul (x3 a) (z3 b)))
           (double_sub (double_mul (x3 a) (y3 b)) (double_mul (y3 a) (x3 b)))"

text \<open>The literal \<^verbatim>\<open>0.000001\<close> is the double nearest to one millionth.\<close>

definition epsilon_double :: real where
  "epsilon_double = binary64 epsilon"

definition rayTriangleIntersect_double ::
  "vec3 \<Rightarrow> vec3 \<Rightarrow> real \<Rightarrow> vec3 \<Rightarrow> vec3 \<Rightarrow> vec3 \<Rightarrow> bool" where
  "rayTriangleIntersect_double rayStart rayDir rayLength v0 v1 v2 =
     (let edge1 = Vec3D_sub_double v1 v0;
          edge2 = Vec3D_sub_double v2 v0;
          h = Vec3D_cross_double rayDir edge2;
          a = Vec3D_dot_double edge1 h
      in if a > - epsilon_double \<and> a < epsilon_double then False
         else
           let f = double_div 1 a;
               s = Vec3D_sub_double rayStart v0;
               u = double_mul f (Vec3D_dot_double s h)
           in if u < 0 \<or> u > 1 then False
              else
                let q = Vec3D_cross_double s edge1;
                    v = double_mul f (Vec3D_dot_double rayDir q)
                in if v < 0 \<or> double_add u v > 1 then False
                   else
                     let t = double_mul f (Vec3D_dot_double edge2 q)
                     in if t > epsilon_double \<and> t < rayLength then True else False)"

text \<open>A triangle with legs of 1/2048 and a ray straight down onto its interior; three
  collinear vertices far from the origin (the third is the first plus twice the edge to
  the second) and a ray of unit direction through the segment they span.\<close>

definition tinyA :: vec3 where
  "tinyA = Vec3D 0 0 0"

definition tinyB :: vec3 where
  "tinyB = Vec3D (1 / 2048) 0 0"

definition tinyC :: vec3 where
  "tinyC = Vec3D 0 (1 / 2048) 0"

definition tinyStart :: vec3 where
  "tinyStart = Vec3D (1 / 8192) (1 / 8192) 1"

definition downDir :: vec3 where
  "downDir = Vec3D 0 0 (- 1)"

definition farA :: vec3 where
  "farA = Vec3D 6 2 (- 3)"

definition farB :: vec3 where
  "farB = Vec3D 97293 (- 37532) (- 1477)"

definition farC :: vec3 where
  "farC = Vec3D 194580 (- 75066) (- 2951)"

definition grazingStart :: vec3 where
  "grazingStart = Vec3D (8998029422428837 / 8796093022208) (- (6868582657278115 / 17592186044416)) (- (1037600685938557 / 70368744177664))"

definition grazingDir :: vec3 where
  "grazingDir = Vec3D (5725243566436355 / 36028797018963968) (- (2782601316094467 / 72057594037927936)) (- (4442972124634033 / 4503599627370496))"

text \<open>A document whose selected mesh has a matrix that sends every point to the origin.\<close>

definition collapsedScene :: obj where
  "collapsedScene =
     Obj NGONFAMILY (Some singleTriangle) (Some singleTriangle)
       (Mat4D (\<lambda>p. Vec3D 0 0 0) (\<lambda>p. Vec3D 0 0 0)) ''flat'' []"

definition collapsedHost :: host where
  "collapsedHost = \<lparr>root = collapsedScene, selection = Some [], random = (stepDraws, 0), events = []\<rparr>"

section \<open>Properties\<close>

subsection \<open>The triangle test\<close>

lemma epsilon_pos: "0 < epsilon"
  by (simp add: epsilon_def)

lemma rayTriangleIntersect_spec:
  "rayTriangleIntersect rayStart rayDir rayLength va vb vc
     = spec_intersects rayStart rayDir rayLength va vb vc"
  unfolding rayTriangleIntersect_def spec_intersects_def mt_a_def mt_u_def mt_v_def
    mt_t_def Let_def
  using epsilon_pos by (auto simp: abs_if)

lemma cramer_unique:
  assumes hit: "pointOnRay rayStart rayDir t = pointInPlane va vb vc u v"
    and a: "mt_a rayDir va vb vc \<noteq> 0"
  shows "u = mt_u rayStart rayDir va vb vc \<and> v = mt_v rayStart rayDir va vb vc
       \<and> t = mt_t rayStart rayDir va vb vc"
proof -
  obtain sx sy sz where s: "rayStart = Vec3D sx sy sz" by (cases rayStart)
  obtain dx dy dz where d: "rayDir = Vec3D dx dy dz" by (cases rayDir)
  obtain ax ay az where va: "va = Vec3D ax ay az" by (cases va)
  obtain bx "by" bz where vb: "vb = Vec3D bx by bz" by (cases vb)
  obtain cx cy cz where vc: "vc = Vec3D cx cy cz" by (cases vc)
  from hit have x: "sx = ax + (bx - ax) * u + (cx - ax) * v - dx * t"
    and y: "sy = ay + (by - ay) * u + (cy - ay) * v - dy * t"
    and z: "sz = az + (bz - az) * u + (cz - az) * v - dz * t"
    by (simp_all add: s d va vb vc pointOnRay_def pointInPlane_def Vec3D_add_def Vec3D_sub_def
        Vec3D_multiply_def algebra_simps)
  let ?a = "mt_a rayDir va vb vc"
  have u: "?a * u = Vec3D_dot (Vec3D_sub rayStart va) (Vec3D_cross rayDir (Vec3D_sub vc va))"
    unfolding s d va vb vc x y z
    by (simp add: mt_a_def Vec3D_dot_def Vec3D_cross_def Vec3D_sub_def algebra_simps)
  have v: "?a * v = Vec3D_dot rayDir (Vec3D_cross (Vec3D_sub rayStart va) (Vec3D_sub vb va))"
    unfolding s d va vb vc x y z
    by (simp add: mt_a_def Vec3D_dot_def Vec3D_cross_def Vec3D_sub_def algebra_simps)
  have t: "?a * t = Vec3D_dot (Vec3D_sub vc va) (Vec3D_cross (Vec3D_sub rayStart va) (Vec3D_sub vb va))"
    unfolding s d va vb vc x y z
    by (simp add: mt_a_def Vec3D_dot_def Vec3D_cross_def Vec3D_sub_def algebra_simps)
  from a u v t show ?thesis
    by (simp add: mt_u_def mt_v_def mt_t_def field_simps)
qed

lemma cramer_vec:
  "Vec3D_dot e (Vec3D_cross d g) * x3 s + x3 d * Vec3D_dot g (Vec3D_cross s e)
     = x3 e * Vec3D_dot s (Vec3D_cross d g) + x3 g * Vec3D_dot d (Vec3D_cross s e)"
  "Vec3D_dot e (Vec3D_cross d g) * y3 s + y3 d * Vec3D_dot g (Vec3D_cross s e)
     = y3 e * Vec3D_dot s (Vec3D_cross d g) + y3 g * Vec3D_dot d (Vec3D_cross s e)"
  "Vec3D_dot e (Vec3D_cross d g) * z3 s + z3 d * Vec3D_dot g (Vec3D_cross s e)
     = z3 e * Vec3D_dot s (Vec3D_cross d g) + z3 g * Vec3D_dot d (Vec3D_cross s e)"
  by (cases s; cases e; cases g; cases d; simp add: Vec3D_dot_def Vec3D_cross_def algebra_simps)+

lemma divide_through:
  fixes a s d tn e un g vn :: real
  assumes "a \<noteq> 0" "a * s + d * tn = e * un + g * vn"
  shows "p + s + d * ((1 / a) * tn) = p + (e * ((1 / a) * un) + g * ((1 / a) * vn))"
proof -
  have "a * (s + d * ((1 / a) * tn)) = a * (e * ((1 / a) * un) + g * ((1 / a) * vn))"
    using assms by (simp add: algebra_simps)
  then have "s + d * ((1 / a) * tn) = e * ((1 / a) * un) + g * ((1 / a) * vn)"
    using assms(1) by (simp only: mult_cancel_left) simp
  then show ?thesis by simp
qed

lemma cramer_exists:
  assumes a: "mt_a rayDir va vb vc \<noteq> 0"
  shows "pointOnRay rayStart rayDir (mt_t rayStart rayDir va vb vc)
           = pointInPlane va vb vc (mt_u rayStart rayDir va vb vc) (mt_v rayStart rayDir va vb vc)"
proof -
  let ?s = "Vec3D_sub rayStart va" and ?e = "Vec3D_sub vb va" and ?g = "Vec3D_sub vc va"
  let ?t = "mt_t rayStart rayDir va vb vc" and ?u = "mt_u rayStart rayDir va vb vc"
  and ?v = "mt_v rayStart rayDir va vb vc"
  have x: "x3 va + x3 ?s + x3 rayDir * ?t = x3 va + (x3 ?e * ?u + x3 ?g * ?v)"
    unfolding mt_t_def mt_u_def mt_v_def
    by (rule divide_through [OF a]) (simp only: mt_a_def cramer_vec(1))
  have y: "y3 va + y3 ?s + y3 rayDir * ?t = y3 va + (y3 ?e * ?u + y3 ?g * ?v)"
    unfolding mt_t_def mt_u_def mt_v_def
    by (rule divide_through [OF a]) (simp only: mt_a_def cramer_vec(2))
  have z: "z3 va + z3 ?s + z3 rayDir * ?t = z3 va + (z3 ?e * ?u + z3 ?g * ?v)"
    unfolding mt_t_def mt_u_def mt_v_def
    by (rule divide_through [OF a]) (simp only: mt_a_def cramer_vec(3))
  have sx: "x3 va + x3 ?s = x3 rayStart" "y3 va + y3 ?s = y3 rayStart" "z3 va + z3 ?s = z3 rayStart"
    by (simp_all add: Vec3D_sub_def)
  show ?thesis
    using x y z unfolding sx
    by (simp add: pointOnRay_def pointInPlane_def Vec3D_add_def Vec3D_multiply_def)
qed


lemma roundHalfEven_near:
  assumes "\<bar>r - of_int m\<bar> < 1 / 2"
  shows "roundHalfEven r = m"
proof (cases "of_int m \<le> r")
  case True
  with assms have "\<lfloor>r\<rfloor> = m" by linarith
  with assms True show ?thesis by (simp add: roundHalfEven_def)
next
  case False
  with assms have f: "\<lfloor>r\<rfloor> = m - 1" by linarith
  from False assms have "1 / 2 < r - of_int (m - 1)" by simp
  with f show ?thesis by (simp add: roundHalfEven_def)
qed

lemma binary64_eqI:
  assumes lo: "2 powr of_int (e + 52) \<le> \<bar>x\<bar>"
    and hi: "\<bar>x\<bar> < 2 powr of_int (e + 53)"
    and near: "\<bar>x / 2 powr of_int e - of_int m\<bar> < 1 / 2"
  shows "binary64 x = of_int m * 2 powr of_int e"
proof -
  have pos: "0 < \<bar>x\<bar>" using lo by (smt (verit) powr_gt_zero)
  then have nz: "x \<noteq> 0" by simp
  have "\<lfloor>log 2 \<bar>x\<bar>\<rfloor> = e + 52"
    using lo hi pos by (subst floor_log_eq_powr_iff) (simp_all add: add.commute)
  then show ?thesis
    using nz near by (simp add: binary64_def roundHalfEven_near)
qed

lemma binary64_frac:
  assumes "2 ^ 52 \<le> \<bar>x\<bar> * 2 ^ n" "\<bar>x\<bar> * 2 ^ n < 2 ^ 53" "\<bar>x * 2 ^ n - of_int m\<bar> < 1 / 2"
  shows "binary64 x = of_int m / 2 ^ n"
proof -
  have p: "(2::real) powr of_int (- int n) = 1 / 2 ^ n"
    by (simp add: powr_minus powr_realpow divide_simps)
  have s: "(2::real) powr of_int (- int n + 52) = 2 powr of_int (- int n) * 2 powr of_int 52"
    "(2::real) powr of_int (- int n + 53) = 2 powr of_int (- int n) * 2 powr of_int 53"
    by (simp_all only: of_int_add powr_add)
  have k: "(2::real) powr of_int 52 = 2 ^ 52" "(2::real) powr of_int 53 = 2 ^ 53"
    by simp_all
  have q: "(2::real) powr of_int (- int n + 52) = 2 ^ 52 / 2 ^ n"
    "(2::real) powr of_int (- int n + 53) = 2 ^ 53 / 2 ^ n"
    by (simp_all only: s p k) simp_all
  show ?thesis
    using binary64_eqI [of "- int n" x m] assms unfolding p q
    by (simp add: divide_simps mult.commute)
qed

lemma binary64_int:
  assumes "2 ^ 52 * 2 ^ n \<le> \<bar>x\<bar>" "\<bar>x\<bar> < 2 ^ 53 * 2 ^ n" "\<bar>x / 2 ^ n - of_int m\<bar> < 1 / 2"
  shows "binary64 x = of_int m * 2 ^ n"
proof -
  have p: "(2::real) powr of_int (int n) = 2 ^ n"
    by (simp add: powr_realpow)
  have s: "(2::real) powr of_int (int n + 52) = 2 powr of_int (int n) * 2 powr of_int 52"
    "(2::real) powr of_int (int n + 53) = 2 powr of_int (int n) * 2 powr of_int 53"
    by (simp_all only: of_int_add powr_add)
  have k: "(2::real) powr of_int 52 = 2 ^ 52" "(2::real) powr of_int 53 = 2 ^ 53"
    by simp_all
  have q: "(2::real) powr of_int (int n + 52) = 2 ^ 52 * 2 ^ n"
    "(2::real) powr of_int (int n + 53) = 2 ^ 53 * 2 ^ n"
    by (simp_all only: s p k) simp_all
  show ?thesis
    using binary64_eqI [of "int n" x m] assms unfolding p q
    by simp
qed

lemma binary64_zero: "binary64 0 = 0"
  by (simp add: binary64_def)

text \<open>C1, as the code has it, over exact real arithmetic: rayTriangleIntersect returns true
  exactly when the determinant a is at least epsilon in absolute value, u is in [0,1], v
  is non-negative with u + v at most 1, and t is strictly between epsilon and the ray
  length. When it returns true, t, u and v are the ray parameter and the barycentric
  coordinates of the point where the ray meets the triangle. Conversely, when a is at
  least epsilon in absolute value and the ray meets the triangle's plane at parameter t
  with barycentric coordinates u and v, the test returns true exactly when that point is
  in the triangle and t is strictly between epsilon and the ray length: a hit returns
  true, a point outside the barycentric bounds returns false. When a is below epsilon in
  absolute value (a ray parallel or nearly parallel to the plane, or a small triangle)
  the test returns false, whether the ray hits the triangle or not.\<close>

theorem rayTriangleIntersect_hits:
  "rayTriangleIntersect rayStart rayDir rayLength va vb vc
     = spec_intersects rayStart rayDir rayLength va vb vc
   \<and> (rayTriangleIntersect rayStart rayDir rayLength va vb vc \<longrightarrow>
        pointOnRay rayStart rayDir (mt_t rayStart rayDir va vb vc)
          = pointInPlane va vb vc (mt_u rayStart rayDir va vb vc) (mt_v rayStart rayDir va vb vc))
   \<and> (epsilon \<le> \<bar>mt_a rayDir va vb vc\<bar>
        \<and> pointOnRay rayStart rayDir t = pointInPlane va vb vc u v \<longrightarrow>
        rayTriangleIntersect rayStart rayDir rayLength va vb vc
          = (0 \<le> u \<and> u \<le> 1 \<and> 0 \<le> v \<and> u + v \<le> 1 \<and> epsilon < t \<and> t < rayLength))
   \<and> (\<bar>mt_a rayDir va vb vc\<bar> < epsilon \<longrightarrow>
        \<not> rayTriangleIntersect rayStart rayDir rayLength va vb vc)"
proof -
  note spec = rayTriangleIntersect_spec [of rayStart rayDir rayLength va vb vc]
  have b: "rayTriangleIntersect rayStart rayDir rayLength va vb vc \<longrightarrow>
        pointOnRay rayStart rayDir (mt_t rayStart rayDir va vb vc)
          = pointInPlane va vb vc (mt_u rayStart rayDir va vb vc) (mt_v rayStart rayDir va vb vc)"
  proof
    assume "rayTriangleIntersect rayStart rayDir rayLength va vb vc"
    then have "epsilon \<le> \<bar>mt_a rayDir va vb vc\<bar>"
      by (simp add: spec spec_intersects_def)
    then have "mt_a rayDir va vb vc \<noteq> 0" using epsilon_pos by auto
    then show "pointOnRay rayStart rayDir (mt_t rayStart rayDir va vb vc)
          = pointInPlane va vb vc (mt_u rayStart rayDir va vb vc) (mt_v rayStart rayDir va vb vc)"
      by (rule cramer_exists)
  qed
  have c: "epsilon \<le> \<bar>mt_a rayDir va vb vc\<bar>
        \<and> pointOnRay rayStart rayDir t = pointInPlane va vb vc u v \<longrightarrow>
        rayTriangleIntersect rayStart rayDir rayLength va vb vc
          = (0 \<le> u \<and> u \<le> 1 \<and> 0 \<le> v \<and> u + v \<le> 1 \<and> epsilon < t \<and> t < rayLength)"
  proof
    assume h: "epsilon \<le> \<bar>mt_a rayDir va vb vc\<bar>
        \<and> pointOnRay rayStart rayDir t = pointInPlane va vb vc u v"
    then have nz: "mt_a rayDir va vb vc \<noteq> 0" using epsilon_pos by auto
    from h have hit: "pointOnRay rayStart rayDir t = pointInPlane va vb vc u v" by simp
    note uvt = cramer_unique [OF hit nz]
    from h show "rayTriangleIntersect rayStart rayDir rayLength va vb vc
          = (0 \<le> u \<and> u \<le> 1 \<and> 0 \<le> v \<and> u + v \<le> 1 \<and> epsilon < t \<and> t < rayLength)"
      unfolding spec spec_intersects_def using uvt by simp
  qed
  have d: "\<bar>mt_a rayDir va vb vc\<bar> < epsilon \<longrightarrow>
        \<not> rayTriangleIntersect rayStart rayDir rayLength va vb vc"
    by (simp add: spec spec_intersects_def)
  from spec b c d show ?thesis by blast
qed

theorem rayTriangleIntersect_hits_witness:
  "rayTriangleIntersect (Vec3D (1/4) (1/4) 1) (Vec3D 0 0 (-1)) 2
       (Vec3D 0 0 0) (Vec3D 1 0 0) (Vec3D 0 1 0)
   \<and> \<not> rayTriangleIntersect (Vec3D (1/4) (1/4) 1) (Vec3D 1 0 0) 2
       (Vec3D 0 0 0) (Vec3D 1 0 0) (Vec3D 0 1 0)
   \<and> \<not> rayTriangleIntersect (Vec3D 2 2 1) (Vec3D 0 0 (-1)) 2
       (Vec3D 0 0 0) (Vec3D 1 0 0) (Vec3D 0 1 0)"
  using rayTriangleIntersect_hits [where rayStart = "Vec3D (1/4) (1/4) 1"
          and rayDir = "Vec3D 0 0 (-1)" and rayLength = 2 and va = "Vec3D 0 0 0"
          and vb = "Vec3D 1 0 0" and vc = "Vec3D 0 1 0" and t = 1 and u = "1/4" and v = "1/4",
          THEN conjunct2, THEN conjunct2, THEN conjunct1]
        rayTriangleIntersect_hits [where rayStart = "Vec3D (1/4) (1/4) 1"
          and rayDir = "Vec3D 1 0 0" and rayLength = 2 and va = "Vec3D 0 0 0"
          and vb = "Vec3D 1 0 0" and vc = "Vec3D 0 1 0",
          THEN conjunct2, THEN conjunct2, THEN conjunct2]
        rayTriangleIntersect_hits [where rayStart = "Vec3D 2 2 1"
          and rayDir = "Vec3D 0 0 (-1)" and rayLength = 2 and va = "Vec3D 0 0 0"
          and vb = "Vec3D 1 0 0" and vc = "Vec3D 0 1 0" and t = 1 and u = 2 and v = 2,
          THEN conjunct2, THEN conjunct2, THEN conjunct1]
  by (simp add: pointOnRay_def pointInPlane_def mt_a_def Vec3D_add_def Vec3D_multiply_def
      Vec3D_sub_def Vec3D_dot_def Vec3D_cross_def epsilon_def)

text \<open>The claim as the specification states it fails on a small triangle: a ray of unit
  direction meets the interior of a triangle with legs of 1/2048 at t = 1, inside a
  segment of length 2, and the test returns false, in exact and in double arithmetic,
  because a = 1/4194304 is below epsilon.\<close>

theorem small_triangle_hit_counterexample:
  "pointOnRay tinyStart downDir 1 = pointInPlane tinyA tinyB tinyC (1 / 4) (1 / 4)
   \<and> Vec3D_norm downDir = 1
   \<and> (0::real) < 1 / 4 \<and> (1 / 4 + 1 / 4 :: real) < 1 \<and> epsilon < 1 \<and> (1::real) < 2
   \<and> \<not> rayTriangleIntersect tinyStart downDir 2 tinyA tinyB tinyC
   \<and> \<not> rayTriangleIntersect_double tinyStart downDir 2 tinyA tinyB tinyC"
proof -
  have f1: "double_sub (1 / 2048) 0 = (1 / 2048)"
    unfolding double_sub_def by (rule trans [OF binary64_frac [where n = 63 and m = "4503599627370496"]]) simp_all
  have f2: "double_sub 0 0 = 0"
    by (simp add: double_sub_def binary64_zero)
  have f3: "double_mul 0 0 = 0"
    by (simp add: double_mul_def binary64_zero)
  have f4: "double_mul (- 1) (1 / 2048) = (- (1 / 2048))"
    unfolding double_mul_def by (rule trans [OF binary64_frac [where n = 63 and m = "-4503599627370496"]]) simp_all
  have f5: "double_sub 0 (- (1 / 2048)) = (1 / 2048)"
    unfolding double_sub_def by (rule trans [OF binary64_frac [where n = 63 and m = "4503599627370496"]]) simp_all
  have f6: "double_mul (- 1) 0 = 0"
    by (simp add: double_mul_def binary64_zero)
  have f7: "double_mul 0 (1 / 2048) = 0"
    by (simp add: double_mul_def binary64_zero)
  have f8: "double_mul (1 / 2048) (1 / 2048) = (1 / 4194304)"
    unfolding double_mul_def by (rule trans [OF binary64_frac [where n = 74 and m = "4503599627370496"]]) simp_all
  have f9: "double_add (1 / 4194304) 0 = (1 / 4194304)"
    unfolding double_add_def by (rule trans [OF binary64_frac [where n = 74 and m = "4503599627370496"]]) simp_all
  have eps: "epsilon_double = (4722366482869645 / 4722366482869645213696)"
    unfolding epsilon_double_def epsilon_def by (rule trans [OF binary64_frac [where n = 72 and m = "4722366482869645"]]) simp_all
  have g: "pointOnRay tinyStart downDir 1 = pointInPlane tinyA tinyB tinyC (1 / 4) (1 / 4)"
    by (simp add: pointOnRay_def pointInPlane_def tinyStart_def downDir_def tinyA_def tinyB_def
        tinyC_def Vec3D_add_def Vec3D_sub_def Vec3D_multiply_def)
  have n: "Vec3D_norm downDir = 1"
    by (simp add: downDir_def Vec3D_norm_def)
  have e: "\<not> rayTriangleIntersect tinyStart downDir 2 tinyA tinyB tinyC"
    by (simp add: rayTriangleIntersect_def tinyStart_def downDir_def tinyA_def tinyB_def
        tinyC_def Vec3D_sub_def Vec3D_dot_def Vec3D_cross_def epsilon_def Let_def)
  have h: "\<not> rayTriangleIntersect_double tinyStart downDir 2 tinyA tinyB tinyC"
    unfolding rayTriangleIntersect_double_def tinyA_def tinyB_def tinyC_def tinyStart_def
      downDir_def Vec3D_sub_double_def Vec3D_dot_double_def Vec3D_cross_double_def Let_def
      vec3.sel
    apply (simp only: f1 f2 f3 f4 f5 f6 f7 f8 f9 eps)
    apply simp
    done
  from g n e h show ?thesis by (simp add: epsilon_def)
qed


subsection \<open>Hemisphere samples\<close>

lemma sphere_sum:
  fixes a b c d :: real
  shows "(a * c) * (a * c) + b * b + (a * d) * (a * d) = a\<^sup>2 * (c\<^sup>2 + d\<^sup>2) + b\<^sup>2"
  by (simp add: power2_eq_square algebra_simps)

lemma spherical_norm:
  "Vec3D_norm (Vec3D (sin p * cos th) (cos p) (sin p * sin th)) = 1"
proof -
  have "(sin p * cos th) * (sin p * cos th) + cos p * cos p + (sin p * sin th) * (sin p * sin th)
        = (sin p)\<^sup>2 * ((cos th)\<^sup>2 + (sin th)\<^sup>2) + (cos p)\<^sup>2"
    by (rule sphere_sum)
  also have "\<dots> = 1"
    by (simp only: sin_cos_squared_add2 mult_1_right sin_cos_squared_add)
  finally have eq: "(sin p * cos th) * (sin p * cos th) + cos p * cos p
                      + (sin p * sin th) * (sin p * sin th) = 1" .
  show ?thesis by (simp only: Vec3D_norm_def vec3.sel eq real_sqrt_one)
qed

lemma cos_arccos_sqrt_nonneg:
  assumes "0 \<le> v" "v < 1"
  shows "0 \<le> cos (arccos (sqrt v))"
proof -
  have "sqrt v \<le> 1" using assms by (simp add: real_sqrt_le_1_iff)
  moreover have "-1 \<le> sqrt v" using assms by (smt (verit) real_sqrt_ge_zero)
  ultimately show ?thesis using assms by (simp add: cos_arccos)
qed

lemma hemisphereDirection_norm: "Vec3D_norm (hemisphereDirection u v) = 1"
  by (simp only: hemisphereDirection_def Let_def spherical_norm)

lemma hemisphereDirection_y:
  assumes "0 \<le> v" "v < 1"
  shows "0 \<le> y3 (hemisphereDirection u v)"
  using cos_arccos_sqrt_nonneg [OF assms] by (simp add: hemisphereDirection_def Let_def)

text \<open>The loop appends one direction per index and takes two draws for each.\<close>

lemma generateHemisphereSamples_loop_samples:
  "fst (generateHemisphereSamples_loop idx samples g) =
     samples @ map (\<lambda>k. hemisphereDirection (fst g (snd g + 2 * k)) (fst g (snd g + 2 * k + 1)))
                 [0..<length idx]"
proof (induction idx arbitrary: samples g)
  case Nil
  then show ?case by simp
next
  case (Cons i rest)
  show ?case
    by (simp add: Cons.IH Math_random_def Let_def hemisphereDirection_def map_upt_Suc
        del: upt_Suc)
qed

lemma generateHemisphereSamples_loop_rng:
  "snd (generateHemisphereSamples_loop idx samples g) = (fst g, snd g + 2 * length idx)"
  by (induction idx arbitrary: samples g) (auto simp: Let_def Math_random_def split: prod.splits)

lemma generateHemisphereSamples_length:
  "length (fst (generateHemisphereSamples N g)) = N"
  by (simp add: generateHemisphereSamples_def generateHemisphereSamples_loop_samples)

lemma generateHemisphereSamples_rng:
  "snd (generateHemisphereSamples N g) = (fst g, snd g + 2 * N)"
  by (simp add: generateHemisphereSamples_def generateHemisphereSamples_loop_rng)

text \<open>C2: for every count N, generateHemisphereSamples returns exactly N directions; the
  k-th is the specification's formula at the draws 2k and 2k+1 after the starting
  position, and when every draw lies in [0,1) each direction has length 1 and a
  non-negative y component.\<close>

theorem generateHemisphereSamples_directions:
  assumes draws: "\<forall>i. 0 \<le> fst g i \<and> fst g i < 1"
  shows "length (fst (generateHemisphereSamples N g)) = N
     \<and> fst (generateHemisphereSamples N g) =
         map (\<lambda>k. hemisphereDirection (fst g (snd g + 2 * k)) (fst g (snd g + 2 * k + 1))) [0..<N]
     \<and> (\<forall>d \<in> set (fst (generateHemisphereSamples N g)). Vec3D_norm d = 1 \<and> 0 \<le> y3 d)"
proof -
  have eq: "fst (generateHemisphereSamples N g) =
         map (\<lambda>k. hemisphereDirection (fst g (snd g + 2 * k)) (fst g (snd g + 2 * k + 1))) [0..<N]"
    by (simp add: generateHemisphereSamples_def generateHemisphereSamples_loop_samples)
  have len: "length (fst (generateHemisphereSamples N g)) = N"
    by (simp add: eq)
  have each: "\<forall>d \<in> set (fst (generateHemisphereSamples N g)). Vec3D_norm d = 1 \<and> 0 \<le> y3 d"
  proof
    fix d assume "d \<in> set (fst (generateHemisphereSamples N g))"
    then obtain k where
      d: "d = hemisphereDirection (fst g (snd g + 2 * k)) (fst g (snd g + 2 * k + 1))"
      unfolding eq by auto
    from draws have "0 \<le> fst g (snd g + 2 * k + 1)" "fst g (snd g + 2 * k + 1) < 1" by auto
    then show "Vec3D_norm d = 1 \<and> 0 \<le> y3 d"
      unfolding d using hemisphereDirection_norm hemisphereDirection_y by blast
  qed
  from len eq each show ?thesis by blast
qed

theorem generateHemisphereSamples_directions_witness:
  "length (fst (generateHemisphereSamples 2 (\<lambda>i. 0, 0))) = 2
   \<and> list_all (\<lambda>d. Vec3D_norm d = 1 \<and> 0 \<le> y3 d) (fst (generateHemisphereSamples 2 (\<lambda>i. 0, 0)))"
  using generateHemisphereSamples_directions [of "(\<lambda>i. 0, 0)" 2]
  by (simp add: list_all_iff)

subsection \<open>Vertex normals\<close>

lemma upt2: "[0..<2] = [0, 1]"
  by (simp add: numeral_2_eq_2)

lemma upt3: "[0..<3] = [0, 1, 2]"
  by (simp add: numeral_3_eq_3)

lemma polygonUsesVertex_iff:
  "polygonUsesVertex c vi p ks = (\<exists>k \<in> set ks. vertexIndex c p k = vi)"
  by (induction ks) auto

lemma polygonUsesVertex_references:
  "polygonUsesVertex c vi p [0..<polygonSize c p] = referencesVertex c vi p"
  by (simp add: polygonUsesVertex_iff referencesVertex_def)

lemma calculateVertexNormal_loop_eq:
  "calculateVertexNormal_loop c vi ps (nrm, faceCount) =
     (foldl Vec3D_add nrm (map (normal c) (filter (referencesVertex c vi) ps)),
      faceCount + length (filter (referencesVertex c vi) ps))"
  by (induction ps arbitrary: nrm faceCount)
     (simp_all add: polygonUsesVertex_references Let_def)

lemma Vec3D_norm_zero_iff: "Vec3D_norm a = 0 \<longleftrightarrow> a = Vec3D 0 0 0"
proof
  assume "Vec3D_norm a = 0"
  then have "x3 a * x3 a + y3 a * y3 a + z3 a * z3 a = 0"
    by (simp add: Vec3D_norm_def)
  then have "x3 a = 0 \<and> y3 a = 0 \<and> z3 a = 0"
    by (smt (verit) zero_le_square mult_eq_0_iff)
  then show "a = Vec3D 0 0 0" by (cases a) simp
next
  assume "a = Vec3D 0 0 0"
  then show "Vec3D_norm a = 0" by (simp add: Vec3D_norm_def)
qed

lemma Vec3D_norm_nonneg: "0 \<le> Vec3D_norm a"
  by (simp add: Vec3D_norm_def)

lemma Vec3D_norm_multiply: "Vec3D_norm (Vec3D_multiply a k) = Vec3D_norm a * \<bar>k\<bar>"
proof -
  have "x3 a * k * (x3 a * k) + y3 a * k * (y3 a * k) + z3 a * k * (z3 a * k)
        = (x3 a * x3 a + y3 a * y3 a + z3 a * z3 a) * k\<^sup>2"
    by (simp add: power2_eq_square algebra_simps)
  then show ?thesis
    by (simp add: Vec3D_norm_def Vec3D_multiply_def real_sqrt_mult)
qed

text \<open>C3, as the code has it: calculateVertexNormal returns the world-up vector (0,1,0)
  whenever no polygon of the mesh references the vertex in a corner. When some polygon
  does and the averaged, world-transformed normal has zero length, it returns that
  normal as it is, the zero vector (there is no fallback on this path). In all other
  cases it returns the averaged normal divided by its length, a vector of length 1.\<close>

theorem calculateVertexNormal_cases:
  "calculateVertexNormal c vi matrix =
     (if incidentPolygons c vi = [] then Vec3D 0 1 0
      else if Vec3D_norm (averagedWorldNormal c vi matrix) = 0 then Vec3D 0 0 0
      else Vec3D_multiply (averagedWorldNormal c vi matrix)
             (1 / Vec3D_norm (averagedWorldNormal c vi matrix)))
   \<and> (incidentPolygons c vi = []
        \<longleftrightarrow> \<not> (\<exists>p < polygonCount c. \<exists>k < polygonSize c p. vertexIndex c p k = vi))
   \<and> (incidentPolygons c vi \<noteq> [] \<and> Vec3D_norm (averagedWorldNormal c vi matrix) \<noteq> 0
        \<longrightarrow> Vec3D_norm (calculateVertexNormal c vi matrix) = 1)"
proof -
  let ?w = "averagedWorldNormal c vi matrix"
  have main: "calculateVertexNormal c vi matrix =
     (if incidentPolygons c vi = [] then Vec3D 0 1 0
      else if Vec3D_norm ?w = 0 then Vec3D 0 0 0
      else Vec3D_multiply ?w (1 / Vec3D_norm ?w))"
    using Vec3D_norm_nonneg [of ?w] Vec3D_norm_zero_iff [of ?w]
    by (auto simp: calculateVertexNormal_def calculateVertexNormal_loop_eq Let_def
        averagedWorldNormal_def incidentPolygons_def)
  have none: "incidentPolygons c vi = []
        \<longleftrightarrow> \<not> (\<exists>p < polygonCount c. \<exists>k < polygonSize c p. vertexIndex c p k = vi)"
    by (simp add: incidentPolygons_def filter_empty_conv referencesVertex_def Ball_def Bex_def)
  have unit: "incidentPolygons c vi \<noteq> [] \<and> Vec3D_norm ?w \<noteq> 0
        \<longrightarrow> Vec3D_norm (calculateVertexNormal c vi matrix) = 1"
    using Vec3D_norm_nonneg [of ?w]
    by (simp add: main Vec3D_norm_multiply)
  from main none unit show ?thesis by blast
qed

theorem calculateVertexNormal_cases_witness:
  "calculateVertexNormal singleTriangle 0 identityMatrix = Vec3D 0 0 1
   \<and> Vec3D_norm (calculateVertexNormal singleTriangle 0 identityMatrix) = 1
   \<and> calculateVertexNormal singleTriangle 7 identityMatrix = Vec3D 0 1 0"
  using calculateVertexNormal_cases [of singleTriangle 0 identityMatrix]
        calculateVertexNormal_cases [of singleTriangle 7 identityMatrix]
  by (simp add: averagedWorldNormal_def incidentPolygons_def referencesVertex_def
      singleTriangle_def identityMatrix_def upt3 Let_def
      Vec3D_add_def Vec3D_sub_def Vec3D_multiply_def Vec3D_norm_def)

text \<open>The claim as the specification states it fails on a double-sided triangle: the
  vertex is referenced, the averaged normal has length 0, and the result is the zero
  vector, not (0,1,0).\<close>

theorem calculateVertexNormal_zero_counterexample:
  "incidentPolygons doubleSidedTriangle 0 \<noteq> []
   \<and> Vec3D_norm (averagedWorldNormal doubleSidedTriangle 0 identityMatrix) = 0
   \<and> calculateVertexNormal doubleSidedTriangle 0 identityMatrix = Vec3D 0 0 0
   \<and> calculateVertexNormal doubleSidedTriangle 0 identityMatrix \<noteq> Vec3D 0 1 0"
  by (simp add: calculateVertexNormal_def averagedWorldNormal_def incidentPolygons_def
      referencesVertex_def doubleSidedTriangle_def identityMatrix_def upt2 upt3 Let_def
      Vec3D_add_def Vec3D_sub_def Vec3D_multiply_def Vec3D_norm_def)

subsection \<open>Occlusion of a vertex\<close>

lemma calculateOcclusion_loop_count:
  "calculateOcclusion_loop tangent nrm bitangent worldPos allMeshes maxDistance bias ds occluded =
     occluded + length (filter (sampleOccluded tangent nrm bitangent worldPos allMeshes maxDistance bias) ds)"
  by (induction ds arbitrary: occluded) simp_all

lemma Math_pow_one: "Math_pow a 1 = a"
  by (cases a) (simp_all add: Math_pow_def)

lemma sampleOccluded_fun:
  "sampleOccluded tangent nrm bitangent worldPos allMeshes maxDistance bias =
     (\<lambda>d. rayIntersectsAnyMesh
            (fst (sampleRay tangent nrm bitangent worldPos maxDistance bias d))
            (snd (sampleRay tangent nrm bitangent worldPos maxDistance bias d)) allMeshes)"
  by (rule ext) (simp add: sampleOccluded_def split_beta)

text \<open>C5: the raw accessibility returned by calculateOcclusion is 1 - occluded / N, where N
  is the number of sample directions and occluded the number of them whose ray
  rayIntersectsAnyMesh reports as blocked. The scalar of a vertex is that value after the
  power step and then the inversion step: intensity 1 without inversion leaves it as it
  is, inversion replaces the value v after the power step by 1 - v, and intensity 2 maps
  1/2 to 1/4 (and, inverted after the power step, to 3/4).\<close>

theorem calculateOcclusion_accessibility:
  "calculateOcclusion worldPos nrm sampleDirections allMeshes maxDistance bias =
     js_sub (Num 1)
       (js_div
          (real (length (filter
             (\<lambda>d. rayIntersectsAnyMesh
                     (fst (sampleRay (fst (tangentBasis nrm)) nrm (snd (tangentBasis nrm))
                             worldPos maxDistance bias d))
                     (snd (sampleRay (fst (tangentBasis nrm)) nrm (snd (tangentBasis nrm))
                             worldPos maxDistance bias d))
                     allMeshes)
             sampleDirections)))
          (real (length sampleDirections)))
   \<and> vertexOcclusion meshMatrix c v sampleDirections allMeshes maxDistance bias intensity invert =
       postProcess
         (calculateOcclusion (Mat4D_multiply meshMatrix (vertex c v))
            (calculateVertexNormal c v meshMatrix) sampleDirections allMeshes maxDistance bias)
         intensity invert
   \<and> postProcess raw 1 False = raw
   \<and> postProcess raw intensity False = Math_pow raw intensity
   \<and> postProcess raw intensity True = js_sub (Num 1) (Math_pow raw intensity)
   \<and> postProcess (Num (1/2)) 2 False = Num (1/4)
   \<and> postProcess (Num (1/2)) 2 True = Num (3/4)"
proof -
  have a: "calculateOcclusion worldPos nrm sampleDirections allMeshes maxDistance bias =
     js_sub (Num 1)
       (js_div
          (real (length (filter
             (\<lambda>d. rayIntersectsAnyMesh
                     (fst (sampleRay (fst (tangentBasis nrm)) nrm (snd (tangentBasis nrm))
                             worldPos maxDistance bias d))
                     (snd (sampleRay (fst (tangentBasis nrm)) nrm (snd (tangentBasis nrm))
                             worldPos maxDistance bias d))
                     allMeshes)
             sampleDirections)))
          (real (length sampleDirections)))"
    by (simp add: calculateOcclusion_def calculateOcclusion_loop_count sampleOccluded_fun
        Let_def split_beta)
  have b: "vertexOcclusion meshMatrix c v sampleDirections allMeshes maxDistance bias intensity invert =
       postProcess
         (calculateOcclusion (Mat4D_multiply meshMatrix (vertex c v))
            (calculateVertexNormal c v meshMatrix) sampleDirections allMeshes maxDistance bias)
         intensity invert"
    by (simp add: vertexOcclusion_def Let_def)
  have c: "postProcess raw 1 False = raw"
    by (simp add: postProcess_def Math_pow_one)
  have d: "postProcess raw intensity False = Math_pow raw intensity"
    by (simp add: postProcess_def)
  have e: "postProcess raw intensity True = js_sub (Num 1) (Math_pow raw intensity)"
    by (simp add: postProcess_def)
  have p: "Math_pow (Num (1/2)) 2 = Num (1/4)"
    by (simp add: Math_pow_def powr_numeral power2_eq_square)
  have f: "postProcess (Num (1/2)) 2 False = Num (1/4)"
    by (simp add: postProcess_def p)
  have g: "postProcess (Num (1/2)) 2 True = Num (3/4)"
    by (simp add: postProcess_def p)
  from a b c d e f g show ?thesis by blast
qed

lemma rayIntersectsAnyMesh_no_meshes: "rayIntersectsAnyMesh rayStart rayEnd [] = False"
  by (simp add: rayIntersectsAnyMesh_def Let_def)

lemma filter_no_meshes:
  "filter (sampleOccluded tangent nrm bitangent worldPos [] maxDistance bias) ds = []"
  by (simp add: sampleOccluded_def split_beta rayIntersectsAnyMesh_no_meshes)

text \<open>C10, as the code has it: with an empty occluder list rayIntersectsAnyMesh returns false
  for every ray, and calculateOcclusion returns exactly 1 for every non-empty sample
  direction set, whatever the position, normal, maxDistance and bias; for the empty
  sample set it returns NaN, the value of 0 / 0.\<close>

theorem calculateOcclusion_no_occluders:
  "rayIntersectsAnyMesh rayStart rayEnd [] = False
   \<and> calculateOcclusion worldPos nrm sampleDirections [] maxDistance bias =
       (if sampleDirections = [] then NaN else Num 1)"
  by (simp add: rayIntersectsAnyMesh_no_meshes calculateOcclusion_def calculateOcclusion_loop_count
      filter_no_meshes Let_def split_beta js_div_def)

text \<open>With no sample direction the result is not 1.\<close>

theorem calculateOcclusion_no_samples_counterexample:
  "calculateOcclusion (Vec3D 0 0 0) (Vec3D 0 1 0) [] [] 1 (1/100) = NaN
   \<and> calculateOcclusion (Vec3D 0 0 0) (Vec3D 0 1 0) [] [] 1 (1/100) \<noteq> Num 1"
  by (simp add: calculateOcclusion_def Let_def split_beta js_div_def)

lemma calculateOcclusion_range:
  assumes "sampleDirections \<noteq> []"
  shows "\<exists>r. calculateOcclusion worldPos nrm sampleDirections allMeshes maxDistance bias = Num r
            \<and> 0 \<le> r \<and> r \<le> 1"
proof -
  obtain tangent bitangent where tb: "tangentBasis nrm = (tangent, bitangent)"
    by (cases "tangentBasis nrm")
  let ?k = "length (filter (sampleOccluded tangent nrm bitangent worldPos allMeshes maxDistance bias)
                sampleDirections)"
  let ?n = "length sampleDirections"
  have n: "0 < ?n" using assms by simp
  have kn: "?k \<le> ?n" by simp
  have eq: "calculateOcclusion worldPos nrm sampleDirections allMeshes maxDistance bias
              = Num (1 - real ?k / real ?n)"
    using n by (simp add: calculateOcclusion_def calculateOcclusion_loop_count tb Let_def js_div_def)
  have "real ?k / real ?n \<le> 1" using n kn by (simp add: divide_le_eq)
  moreover have "0 \<le> real ?k / real ?n" by simp
  ultimately show ?thesis using eq by auto
qed

lemma postProcess_range:
  assumes "0 < intensity" "0 \<le> r" "r \<le> 1"
  shows "\<exists>s. postProcess (Num r) intensity invert = Num s \<and> 0 \<le> s \<and> s \<le> 1"
proof (cases "r = 0")
  case True
  with assms show ?thesis by (simp add: postProcess_def Math_pow_def Let_def)
next
  case False
  with assms have pos: "0 < r" by simp
  have le: "r powr intensity \<le> 1" using assms by (simp add: powr_le1)
  have ge: "0 \<le> r powr intensity" by simp
  from pos assms le ge show ?thesis by (simp add: postProcess_def Math_pow_def Let_def)
qed


text \<open>C6: when the intensity exponent is strictly positive, the final occlusion scalar of
  every vertex is a finite number in [0,1], for every non-empty sample direction set and
  so for every bake with a sample count of at least 1 (the tool offers 8 to 128).\<close>

theorem vertexOcclusion_range:
  assumes "0 < intensity"
  shows "(sampleDirections \<noteq> [] \<longrightarrow>
            (\<exists>s. vertexOcclusion meshMatrix c v sampleDirections allMeshes maxDistance bias
                    intensity invert = Num s \<and> 0 \<le> s \<and> s \<le> 1))
       \<and> (0 < sampleRays \<longrightarrow>
            (\<exists>s. vertexOcclusion meshMatrix c v (fst (generateHemisphereSamples sampleRays g))
                    allMeshes maxDistance bias intensity invert = Num s \<and> 0 \<le> s \<and> s \<le> 1))"
proof -
  have gen: "\<exists>s. vertexOcclusion meshMatrix c v ds allMeshes maxDistance bias
                    intensity invert = Num s \<and> 0 \<le> s \<and> s \<le> 1" if nonempty: "ds \<noteq> []" for ds
  proof -
    obtain r where r: "calculateOcclusion (Mat4D_multiply meshMatrix (vertex c v))
            (calculateVertexNormal c v meshMatrix) ds allMeshes maxDistance bias = Num r"
        "0 \<le> r" "r \<le> 1"
      using calculateOcclusion_range [OF nonempty] by blast
    show ?thesis
      using postProcess_range [OF assms r(2) r(3)] by (simp add: vertexOcclusion_def Let_def r(1))
  qed
  have ne: "fst (generateHemisphereSamples sampleRays g) \<noteq> []" if "0 < sampleRays"
    using that generateHemisphereSamples_length [of sampleRays g] by auto
  from gen ne show ?thesis by blast
qed

theorem vertexOcclusion_range_witness:
  "\<exists>s. vertexOcclusion identityMatrix singleTriangle 0 (fst (generateHemisphereSamples 8 (\<lambda>i. 0, 0)))
          [] 1 (1/100) 2 True = Num s \<and> 0 \<le> s \<and> s \<le> 1"
  using vertexOcclusion_range [of 2 "[]" identityMatrix singleTriangle 0 "[]" 1 "1/100" True 8 "(\<lambda>i. 0, 0)"]
  by simp

lemma rayIntersects_meshes_append:
  "rayIntersects_meshes rayStart rayEnd (pre @ post) =
     (rayIntersects_meshes rayStart rayEnd pre \<or> rayIntersects_meshes rayStart rayEnd post)"
  by (induction pre) (auto simp: Let_def)

lemma collinear_a_zero:
  assumes "Vec3D_cross (Vec3D_sub v1 v0) (Vec3D_sub v2 v0) = Vec3D 0 0 0"
  shows "mt_a rayDir v0 v1 v2 = 0"
proof -
  let ?e1 = "Vec3D_sub v1 v0" and ?e2 = "Vec3D_sub v2 v0"
  have c: "y3 ?e1 * z3 ?e2 - z3 ?e1 * y3 ?e2 = 0"
          "z3 ?e1 * x3 ?e2 - x3 ?e1 * z3 ?e2 = 0"
          "x3 ?e1 * y3 ?e2 - y3 ?e1 * x3 ?e2 = 0"
    using assms by (simp_all add: Vec3D_cross_def)
  have "mt_a rayDir v0 v1 v2 =
          - (x3 rayDir * (y3 ?e1 * z3 ?e2 - z3 ?e1 * y3 ?e2)
           + y3 rayDir * (z3 ?e1 * x3 ?e2 - x3 ?e1 * z3 ?e2)
           + z3 rayDir * (x3 ?e1 * y3 ?e2 - y3 ?e1 * x3 ?e2))"
    by (simp add: mt_a_def Vec3D_dot_def Vec3D_cross_def algebra_simps)
  then show ?thesis by (simp only: c mult_zero_right add_0_left neg_0_equal_iff_equal minus_zero)
qed

lemma collinear_no_hit:
  assumes "Vec3D_cross (Vec3D_sub v1 v0) (Vec3D_sub v2 v0) = Vec3D 0 0 0"
  shows "\<not> rayTriangleIntersect rayStart rayDir rayLength v0 v1 v2"
  using collinear_a_zero [OF assms, of rayDir] epsilon_pos
  by (simp add: rayTriangleIntersect_def mt_a_def Let_def)

lemma tangentBasis_z: "tangentBasis (Vec3D 0 0 1) = (Vec3D (- 1) 0 0, Vec3D 0 (- 1) 0)"
  by (simp add: tangentBasis_def Let_def Vec3D_dot_def Vec3D_cross_def Vec3D_norm_def Vec3D_multiply_def)

theorem calculateOcclusion_accessibility_witness:
  "calculateOcclusion (Vec3D (1/4) (1/4) (- 1)) (Vec3D 0 0 1) [Vec3D 0 1 0, Vec3D 1 0 0]
      [triangleMesh] 2 (1/100) = Num (1/2)
   \<and> postProcess (Num (1/2)) 2 False = Num (1/4)"
  using calculateOcclusion_accessibility [where worldPos = "Vec3D (1/4) (1/4) (- 1)"
          and nrm = "Vec3D 0 0 1" and sampleDirections = "[Vec3D 0 1 0, Vec3D 1 0 0]"
          and allMeshes = "[triangleMesh]" and maxDistance = 2 and bias = "1/100"
          and meshMatrix = identityMatrix and c = singleTriangle and v = 0
          and intensity = 1 and invert = False and raw = NaN]
  by (simp add: tangentBasis_z sampleRay_def rayIntersectsAnyMesh_def triangleMesh_def singleTriangle_def
      identityMatrix_def Mat4D_inverse_def Let_def upt3 rayTriangleIntersect_def epsilon_def
      Vec3D_add_def Vec3D_sub_def Vec3D_multiply_def Vec3D_norm_def Vec3D_dot_def Vec3D_cross_def
      js_div_def)

subsection \<open>Writing the scalar of a vertex\<close>

lemma core_uv_eq: "f = g \<Longrightarrow> c\<lparr>uvCoord := f\<rparr> = c\<lparr>uvCoord := g\<rparr>"
  by simp

lemma setVertexColor_corners_eq:
  "setVertexColor_corners c vi color p ks =
     c\<lparr>uvCoord := (\<lambda>p' k'. if p' = p \<and> k' \<in> set ks \<and> vertexIndex c p k' = vi
                          then Vec4D (x4 color) (Num 0) (Num 0) (Num 0)
                          else uvCoord c p' k')\<rparr>"
proof (induction ks arbitrary: c)
  case Nil
  then show ?case by simp
next
  case (Cons k ks)
  show ?case
  proof (cases "vertexIndex c p k = vi")
    case True
    have "setVertexColor_corners c vi color p (k # ks) =
           setVertexColor_corners
             (setUVCoord c p k (Vec4D (x4 color) (Num 0) (Num 0) (Num 0))) vi color p ks"
      using True by simp
    also have "\<dots> = c\<lparr>uvCoord := (\<lambda>p' k'. if p' = p \<and> k' \<in> set (k # ks) \<and> vertexIndex c p k' = vi
                          then Vec4D (x4 color) (Num 0) (Num 0) (Num 0)
                          else uvCoord c p' k')\<rparr>"
      unfolding Cons.IH using True
      by (simp add: setUVCoord_def) (rule core_uv_eq, auto simp: fun_eq_iff setUVCoord_def)
    finally show ?thesis .
  next
    case False
    have "setVertexColor_corners c vi color p (k # ks) = setVertexColor_corners c vi color p ks"
      using False by simp
    also have "\<dots> = c\<lparr>uvCoord := (\<lambda>p' k'. if p' = p \<and> k' \<in> set (k # ks) \<and> vertexIndex c p k' = vi
                          then Vec4D (x4 color) (Num 0) (Num 0) (Num 0)
                          else uvCoord c p' k')\<rparr>"
      unfolding Cons.IH using False
      by - (rule core_uv_eq, auto simp: fun_eq_iff)
    finally show ?thesis .
  qed
qed

lemma setVertexColor_polygons_eq:
  "setVertexColor_polygons c vi color ps =
     c\<lparr>uvCoord := (\<lambda>p k. if p \<in> set ps \<and> k < polygonSize c p \<and> vertexIndex c p k = vi
                          then Vec4D (x4 color) (Num 0) (Num 0) (Num 0)
                          else uvCoord c p k)\<rparr>"
proof (induction ps arbitrary: c)
  case Nil
  then show ?case by simp
next
  case (Cons p ps)
  show ?case
    by (simp add: Cons.IH setVertexColor_corners_eq Let_def)
       (rule core_uv_eq, auto simp: fun_eq_iff)
qed

lemma setVertexColor_eq:
  "setVertexColor c vi color =
     c\<lparr>uvCoord := (\<lambda>p k. if p < polygonCount c \<and> k < polygonSize c p \<and> vertexIndex c p k = vi
                          then Vec4D (x4 color) (Num 0) (Num 0) (Num 0)
                          else uvCoord c p k)\<rparr>"
  by (simp add: setVertexColor_def setVertexColor_polygons_eq)

lemma referencesVertex_uv:
  "referencesVertex (c\<lparr>uvCoord := f\<rparr>) vi = referencesVertex c vi"
  by (rule ext) (simp add: referencesVertex_def)

lemma calculateVertexNormal_uv:
  "calculateVertexNormal (c\<lparr>uvCoord := f\<rparr>) vi matrix = calculateVertexNormal c vi matrix"
  by (simp add: calculateVertexNormal_def calculateVertexNormal_loop_eq referencesVertex_uv)

lemma vertexOcclusion_uv:
  "vertexOcclusion M (c\<lparr>uvCoord := f\<rparr>) v sd am md b i ivt = vertexOcclusion M c v sd am md b i ivt"
  by (simp add: vertexOcclusion_def calculateVertexNormal_uv)

lemma bakeMeshAO_loop_eq:
  "bakeMeshAO_loop M sd am md b i ivt vs c =
     c\<lparr>uvCoord := (\<lambda>p k. if p < polygonCount c \<and> k < polygonSize c p \<and> vertexIndex c p k \<in> set vs
                          then Vec4D (vertexOcclusion M c (vertexIndex c p k) sd am md b i ivt)
                                 (Num 0) (Num 0) (Num 0)
                          else uvCoord c p k)\<rparr>"
proof (induction vs arbitrary: c)
  case Nil
  then show ?case by simp
next
  case (Cons v vs)
  show ?case
    by (simp add: Cons.IH setVertexColor_eq Let_def vertexOcclusion_uv)
       (rule core_uv_eq, auto simp: fun_eq_iff vertexOcclusion_uv)
qed

text \<open>C7: setVertexColor writes (s, 0, 0, 0), with s the first component of the colour, to
  every corner (p, k) of the mesh whose vertexIndex is the vertex, and leaves every other
  corner and the geometry as they are. After bakeMeshAO, every corner that references a
  vertex v of the mesh holds (s, 0, 0, 0) for the one scalar s of v, the same for all
  corners and polygons that share v; the other corners are unchanged.\<close>

theorem bakeMeshAO_writes:
  "setVertexColor c vi color =
     c\<lparr>uvCoord := (\<lambda>p k. if p < polygonCount c \<and> k < polygonSize c p \<and> vertexIndex c p k = vi
                          then Vec4D (x4 color) (Num 0) (Num 0) (Num 0)
                          else uvCoord c p k)\<rparr>
   \<and> fst (bakeMeshAO M c allMeshes sampleRays maxDistance bias intensity invert g) =
     c\<lparr>uvCoord := (\<lambda>p k. if p < polygonCount c \<and> k < polygonSize c p
                              \<and> vertexIndex c p k < vertexCount c
                          then Vec4D (vertexOcclusion M c (vertexIndex c p k)
                                        (fst (generateHemisphereSamples sampleRays g))
                                        allMeshes maxDistance bias intensity invert)
                                 (Num 0) (Num 0) (Num 0)
                          else uvCoord c p k)\<rparr>"
  by (simp add: setVertexColor_eq bakeMeshAO_def bakeMeshAO_loop_eq split_beta Let_def)


subsection \<open>The sample set of a bake\<close>

lemma bakeMeshAO_rng:
  "snd (bakeMeshAO M c am sr md b i ivt g) = (fst g, snd g + 2 * sr)"
  by (simp add: bakeMeshAO_def split_beta generateHemisphereSamples_rng)

lemma processMeshes_count_rng:
  "fst (snd (processMeshesRecursively ob am sr md b i ivt count st)) = count + meshCount ob
   \<and> fst (snd (snd (processMeshesRecursively ob am sr md b i ivt count st)))
       = (fst (fst st), snd (fst st) + 2 * sr * meshCount ob)"
  "fst (snd (processMeshes_children obs am sr md b i ivt count st)) = count + meshCount_children obs
   \<and> fst (snd (snd (processMeshes_children obs am sr md b i ivt count st)))
       = (fst (fst st), snd (fst st) + 2 * sr * meshCount_children obs)"
proof (induction ob am sr md b i ivt count st and obs am sr md b i ivt count st
       rule: processMeshesRecursively_processMeshes_children.induct)
  case (1 fam co mco matrix nm kids allMeshes sampleRays maxDistance bias intensity invert count g ev)
  then show ?case
    by (auto simp: split_beta Let_def bakeMeshAO_rng algebra_simps split: option.splits)
next
  case (2 allMeshes sampleRays maxDistance bias intensity invert count st)
  then show ?case by simp
next
  case (3 child rest allMeshes sampleRays maxDistance bias intensity invert count st)
  obtain a aa ab bb ba where
    r: "(a, aa, (ab, bb), ba) =
          processMeshesRecursively child allMeshes sampleRays maxDistance bias intensity invert
            count st"
    by (metis prod.collapse)
  note ih1 = "3.IH"(1) and ih2 = "3.IH"(2) [OF refl r refl]
  from ih1 have aa: "aa = count + meshCount child"
    and g: "(ab, bb) = (fst (fst st), snd (fst st) + 2 * sampleRays * meshCount child)"
    unfolding r [symmetric] by simp_all
  show ?case
    using ih2 aa g unfolding processMeshes_children.simps(2) r [symmetric]
    by (simp add: split_beta Let_def algebra_simps)
qed


lemma bakeAmbientOcclusion_random:
  assumes "selectedObject h = Some (path, ob)"
  shows "random (bakeAmbientOcclusion t h) =
           (fst (random h), snd (random h) + 2 * tool_sampleRays t * meshCount ob)"
  using assms processMeshes_count_rng(1)
          [of ob "collectAllMeshes (root h) []" "tool_sampleRays t" "tool_maxDistance t" "tool_bias t"
              "tool_intensity t" "tool_invert t" 0
              "(random h, events h @ [PrintStarting, PrintSampleRays (tool_sampleRays t),
                               PrintMaxDistance (tool_maxDistance t)])"]
  by (simp add: bakeAmbientOcclusion_def Let_def split_beta)

text \<open>C4, as the code has it: one call of bakeMeshAO (one mesh) generates the sample
  direction set once, with two draws per direction, and the scalar written for every
  vertex of that mesh is computed from that one list. A bake generates a fresh set for
  each mesh it processes: after processMeshesRecursively the count has grown by the
  number of meshes under the object and the random source has advanced by
  2 * sampleRays draws for each of them.\<close>

theorem sample_set_per_mesh:
  "fst (bakeMeshAO M c allMeshes sampleRays maxDistance bias intensity invert g) =
     bakeMeshAO_loop M (fst (generateHemisphereSamples sampleRays g)) allMeshes maxDistance bias
       intensity invert [0..<vertexCount c] c
   \<and> fst (bakeMeshAO M c allMeshes sampleRays maxDistance bias intensity invert g) =
     c\<lparr>uvCoord := (\<lambda>p k. if p < polygonCount c \<and> k < polygonSize c p
                              \<and> vertexIndex c p k < vertexCount c
                          then Vec4D (vertexOcclusion M c (vertexIndex c p k)
                                        (fst (generateHemisphereSamples sampleRays g))
                                        allMeshes maxDistance bias intensity invert)
                                 (Num 0) (Num 0) (Num 0)
                          else uvCoord c p k)\<rparr>
   \<and> snd (bakeMeshAO M c allMeshes sampleRays maxDistance bias intensity invert g)
       = (fst g, snd g + 2 * sampleRays)
   \<and> fst (snd (processMeshesRecursively ob allMeshes sampleRays maxDistance bias intensity invert
                 count (g, ev))) = count + meshCount ob
   \<and> fst (snd (snd (processMeshesRecursively ob allMeshes sampleRays maxDistance bias intensity
                      invert count (g, ev))))
       = (fst g, snd g + 2 * sampleRays * meshCount ob)"
proof -
  have a: "fst (bakeMeshAO M c allMeshes sampleRays maxDistance bias intensity invert g) =
     bakeMeshAO_loop M (fst (generateHemisphereSamples sampleRays g)) allMeshes maxDistance bias
       intensity invert [0..<vertexCount c] c"
    by (simp add: bakeMeshAO_def split_beta)
  have b: "fst (bakeMeshAO M c allMeshes sampleRays maxDistance bias intensity invert g) =
     c\<lparr>uvCoord := (\<lambda>p k. if p < polygonCount c \<and> k < polygonSize c p
                              \<and> vertexIndex c p k < vertexCount c
                          then Vec4D (vertexOcclusion M c (vertexIndex c p k)
                                        (fst (generateHemisphereSamples sampleRays g))
                                        allMeshes maxDistance bias intensity invert)
                                 (Num 0) (Num 0) (Num 0)
                          else uvCoord c p k)\<rparr>"
    unfolding a by (simp add: bakeMeshAO_loop_eq)
  note p = processMeshes_count_rng(1)
          [of ob allMeshes sampleRays maxDistance bias intensity invert count "(g, ev)"]
  from a b p show ?thesis by (simp add: bakeMeshAO_rng)
qed

lemma vertexCount_singleTriangle: "vertexCount singleTriangle = 3"
  by (simp add: singleTriangle_def)

lemma stepDraws_sets_differ:
  "fst (generateHemisphereSamples 8 (stepDraws, 0)) \<noteq> fst (generateHemisphereSamples 8 (stepDraws, 16))"
proof
  assume eq: "fst (generateHemisphereSamples 8 (stepDraws, 0))
                = fst (generateHemisphereSamples 8 (stepDraws, 16))"
  have "fst (generateHemisphereSamples 8 (stepDraws, 0)) ! 0 = hemisphereDirection 0 0"
    by (simp add: generateHemisphereSamples_def generateHemisphereSamples_loop_samples stepDraws_def
        del: upt_Suc)
  moreover have "fst (generateHemisphereSamples 8 (stepDraws, 16)) ! 0
                   = hemisphereDirection (1/4) (1/4)"
    by (simp add: generateHemisphereSamples_def generateHemisphereSamples_loop_samples stepDraws_def
        del: upt_Suc)
  ultimately have "y3 (hemisphereDirection 0 0) = y3 (hemisphereDirection (1/4) (1/4))"
    using eq by simp
  moreover have "y3 (hemisphereDirection 0 0) = 0"
    by (simp add: hemisphereDirection_def)
  moreover have "y3 (hemisphereDirection (1/4) (1/4)) = 1/2"
    by (simp add: hemisphereDirection_def Let_def real_sqrt_divide cos_60)
  ultimately show False by simp
qed

text \<open>A bake of a mesh with a child mesh generates two sample sets: the child is baked
  from the random source as the parent left it, the two sets differ, and 32 draws are
  taken for 8 sample rays.\<close>

theorem sample_set_once_counterexample:
  "root (bakeAmbientOcclusion defaultTool twoMeshHost) =
     Obj NGONFAMILY
       (Some (fst (bakeMeshAO identityMatrix singleTriangle [triangleMesh, triangleMesh]
                     8 1 (1/100) 1 False (stepDraws, 0))))
       (Some singleTriangle) identityMatrix ''parent''
       [Obj NGONFAMILY
          (Some (fst (bakeMeshAO identityMatrix singleTriangle [triangleMesh, triangleMesh]
                        8 1 (1/100) 1 False (stepDraws, 16))))
          (Some singleTriangle) identityMatrix ''child'' []]
   \<and> fst (generateHemisphereSamples 8 (stepDraws, 0))
       \<noteq> fst (generateHemisphereSamples 8 (stepDraws, 16))
   \<and> random (bakeAmbientOcclusion defaultTool twoMeshHost) = (stepDraws, 32)"
proof -
  have sel: "selectedObject twoMeshHost = Some ([], twoMeshScene)"
    by (simp add: selectedObject_def twoMeshHost_def)
  have r: "random (bakeAmbientOcclusion defaultTool twoMeshHost) = (stepDraws, 32)"
    unfolding bakeAmbientOcclusion_random [OF sel]
    by (simp add: twoMeshHost_def defaultTool_def twoMeshScene_def vertexCount_singleTriangle)
  have t: "root (bakeAmbientOcclusion defaultTool twoMeshHost) =
     Obj NGONFAMILY
       (Some (fst (bakeMeshAO identityMatrix singleTriangle [triangleMesh, triangleMesh]
                     8 1 (1/100) 1 False (stepDraws, 0))))
       (Some singleTriangle) identityMatrix ''parent''
       [Obj NGONFAMILY
          (Some (fst (bakeMeshAO identityMatrix singleTriangle [triangleMesh, triangleMesh]
                        8 1 (1/100) 1 False (stepDraws, 16))))
          (Some singleTriangle) identityMatrix ''child'' []]"
    unfolding bakeAmbientOcclusion_def sel
    by (simp add: twoMeshHost_def defaultTool_def
        twoMeshScene_def vertexCount_singleTriangle triangleMesh_def Let_def split_beta
        bakeMeshAO_rng)
  from t stepDraws_sets_differ r show ?thesis by blast
qed

subsection \<open>No selection\<close>

text \<open>C9: when no object is selected, bakeAmbientOcclusion reports the error in a message
  box and returns: the scene is as it was (no corner attribute is written), the random
  source is untouched (no sample is generated), and the message box is the only call
  made to the host.\<close>

theorem no_selection_aborts:
  assumes "selectedObject h = None"
  shows "bakeAmbientOcclusion t h =
           h\<lparr>events := events h @ [MessageBox ''Error'' ''Please select an object first.'']\<rparr>
       \<and> root (bakeAmbientOcclusion t h) = root h
       \<and> random (bakeAmbientOcclusion t h) = random h
       \<and> events (bakeAmbientOcclusion t h) =
           events h @ [MessageBox ''Error'' ''Please select an object first.'']"
  using assms by (simp add: bakeAmbientOcclusion_def)

theorem no_selection_aborts_witness:
  "root (bakeAmbientOcclusion defaultTool nothingSelected) = twoMeshScene
   \<and> random (bakeAmbientOcclusion defaultTool nothingSelected) = (stepDraws, 0)
   \<and> events (bakeAmbientOcclusion defaultTool nothingSelected) =
        [MessageBox ''Error'' ''Please select an object first.'']"
  using no_selection_aborts [of nothingSelected defaultTool]
  by (simp add: selectedObject_def nothingSelected_def)


lemma calculateOcclusion_no_meshes:
  "sd \<noteq> [] \<Longrightarrow> calculateOcclusion worldPos nrm sd [] md b = Num 1"
  by (simp add: calculateOcclusion_def calculateOcclusion_loop_count filter_no_meshes
      split_beta js_div_def)

theorem bakeMeshAO_writes_witness:
  "uvCoord (fst (bakeMeshAO identityMatrix singleTriangle [] 8 1 (1/100) 1 False (stepDraws, 0))) 0 2
     = Vec4D (Num 1) (Num 0) (Num 0) (Num 0)
   \<and> uvCoord (fst (bakeMeshAO identityMatrix singleTriangle [] 8 1 (1/100) 1 False (stepDraws, 0))) 1 0
     = blankUV 1 0
   \<and> uvCoord (setVertexColor singleTriangle 2 (Vec4D (Num (1/2)) (Num (1/2)) (Num (1/2)) (Num 1))) 0 2
     = Vec4D (Num (1/2)) (Num 0) (Num 0) (Num 0)
   \<and> uvCoord (setVertexColor singleTriangle 2 (Vec4D (Num (1/2)) (Num (1/2)) (Num (1/2)) (Num 1))) 0 1
     = blankUV 0 1"
proof -
  have ne: "fst (generateHemisphereSamples 8 (stepDraws, 0)) \<noteq> []"
    using generateHemisphereSamples_length [of 8 "(stepDraws, 0)"] by auto
  show ?thesis
    using bakeMeshAO_writes [of singleTriangle 2 "Vec4D (Num (1/2)) (Num (1/2)) (Num (1/2)) (Num 1)"
            identityMatrix "[]" 8 1 "1/100" 1 False "(stepDraws, 0)"]
    by (simp add: singleTriangle_def vertexOcclusion_def calculateOcclusion_no_meshes [OF ne]
        postProcess_def Math_pow_def)
qed

theorem sample_set_per_mesh_witness:
  "fst (snd (processMeshesRecursively twoMeshScene [] 8 1 (1/100) 1 False 0 ((stepDraws, 0), []))) = 2
   \<and> fst (snd (snd (processMeshesRecursively twoMeshScene [] 8 1 (1/100) 1 False 0
                      ((stepDraws, 0), [])))) = (stepDraws, 32)"
  using sample_set_per_mesh [where M = identityMatrix and c = singleTriangle and allMeshes = "[]"
          and sampleRays = 8 and maxDistance = 1 and bias = "1/100" and intensity = 1
          and invert = False and g = "(stepDraws, 0)" and ob = twoMeshScene and count = 0
          and ev = "[]", THEN conjunct2, THEN conjunct2, THEN conjunct2]
  by (simp add: twoMeshScene_def vertexCount_singleTriangle)

theorem calculateOcclusion_no_occluders_witness:
  "\<not> rayIntersectsAnyMesh (Vec3D 0 0 0) (Vec3D 0 1 0) []
   \<and> calculateOcclusion (Vec3D 0 0 0) (Vec3D 0 1 0) [Vec3D 0 1 0, Vec3D 1 0 0] [] 1 (1/100) = Num 1"
  using calculateOcclusion_no_occluders [of "Vec3D 0 0 0" "Vec3D 0 1 0" "Vec3D 0 0 0" "Vec3D 0 1 0"
          "[Vec3D 0 1 0, Vec3D 1 0 0]" 1 "1/100"]
  by simp

lemma vertexOcclusion_no_samples:
  "vertexOcclusion M c v (fst (generateHemisphereSamples 0 g)) am md b 1 False = NaN"
  by (simp add: vertexOcclusion_def calculateOcclusion_def generateHemisphereSamples_def
      postProcess_def Math_pow_def js_div_def Let_def split_beta)

text \<open>Outside the tool's range, with a sample count of 0 and intensity 1, the scalar is
  NaN, and NaN is what the bake writes.\<close>

lemma vertexOcclusion_no_samples_NaN:
  "vertexOcclusion identityMatrix singleTriangle 0 (fst (generateHemisphereSamples 0 (stepDraws, 0)))
          [] 1 (1/100) 1 False = NaN
   \<and> \<not> (\<exists>s. vertexOcclusion identityMatrix singleTriangle 0
                 (fst (generateHemisphereSamples 0 (stepDraws, 0))) [] 1 (1/100) 1 False = Num s
               \<and> 0 \<le> s \<and> s \<le> 1)
   \<and> x4 (uvCoord (fst (bakeMeshAO identityMatrix singleTriangle [] 0 1 (1/100) 1 False
                        (stepDraws, 0))) 0 0) = NaN"
proof -
  have v: "vertexOcclusion identityMatrix singleTriangle 0
             (fst (generateHemisphereSamples 0 (stepDraws, 0))) [] 1 (1/100) 1 False = NaN"
    by (simp add: vertexOcclusion_def calculateOcclusion_def generateHemisphereSamples_def
      postProcess_def Math_pow_def js_div_def Let_def split_beta)
  have w: "x4 (uvCoord (fst (bakeMeshAO identityMatrix singleTriangle [] 0 1 (1/100) 1 False
                        (stepDraws, 0))) 0 0) = NaN"
    by (simp add: bakeMeshAO_def bakeMeshAO_loop_eq split_beta vertexOcclusion_no_samples)
       (simp add: singleTriangle_def)
  from v w show ?thesis by simp
qed

subsection \<open>Degenerate geometry\<close>

lemma bakeAmbientOcclusion_events:
  assumes "selectedObject h = Some (path, ob)"
  shows "\<exists>ev. events (bakeAmbientOcclusion t h) = ev @ [RedrawAll, PrintComplete (meshCount ob)]"
  using assms processMeshes_count_rng(1)
          [of ob "collectAllMeshes (root h) []" "tool_sampleRays t" "tool_maxDistance t" "tool_bias t"
              "tool_intensity t" "tool_invert t" 0
              "(random h, events h @ [PrintStarting, PrintSampleRays (tool_sampleRays t),
                               PrintMaxDistance (tool_maxDistance t)])"]
  by (simp add: bakeAmbientOcclusion_def Let_def split_beta)

text \<open>C8, as the code has it: a world-space ray of length zero makes rayIntersectsAnyMesh
  return false; an occluder in whose local space the ray has length zero is skipped,
  wherever it stands in the list; for a triangle with collinear vertices the exact
  determinant a is 0 for every ray direction, so the test rejects it whenever a is
  computed exactly; and a bake with a selection runs to its final redraw and completion
  message, whatever the geometry.\<close>

theorem degenerate_geometry:
  "(Vec3D_norm (Vec3D_sub rayEnd rayStart) = 0 \<longrightarrow> \<not> rayIntersectsAnyMesh rayStart rayEnd meshes)
   \<and> (Vec3D_norm (Vec3D_sub (Mat4D_multiply (Mat4D_inverse (mesh_matrix m)) rayEnd)
                            (Mat4D_multiply (Mat4D_inverse (mesh_matrix m)) rayStart)) = 0
        \<longrightarrow> rayIntersects_meshes rayStart rayEnd (pre @ m # post)
              = rayIntersects_meshes rayStart rayEnd (pre @ post))
   \<and> (Vec3D_cross (Vec3D_sub vb va) (Vec3D_sub vc va) = Vec3D 0 0 0
        \<longrightarrow> mt_a rayDir va vb vc = 0
            \<and> \<not> rayTriangleIntersect localStart rayDir rayLength va vb vc)
   \<and> (selectedObject h = Some (path, ob)
        \<longrightarrow> (\<exists>ev. events (bakeAmbientOcclusion t h)
                     = ev @ [RedrawAll, PrintComplete (meshCount ob)]))"
proof -
  have a: "Vec3D_norm (Vec3D_sub rayEnd rayStart) = 0 \<longrightarrow> \<not> rayIntersectsAnyMesh rayStart rayEnd meshes"
    by (simp add: rayIntersectsAnyMesh_def Let_def)
  have b: "Vec3D_norm (Vec3D_sub (Mat4D_multiply (Mat4D_inverse (mesh_matrix m)) rayEnd)
                            (Mat4D_multiply (Mat4D_inverse (mesh_matrix m)) rayStart)) = 0
        \<longrightarrow> rayIntersects_meshes rayStart rayEnd (pre @ m # post)
              = rayIntersects_meshes rayStart rayEnd (pre @ post)"
    by (simp add: rayIntersects_meshes_append [of _ _ pre "m # post"]
        rayIntersects_meshes_append [of _ _ pre post] Let_def)
  have c: "Vec3D_cross (Vec3D_sub vb va) (Vec3D_sub vc va) = Vec3D 0 0 0
        \<longrightarrow> mt_a rayDir va vb vc = 0
            \<and> \<not> rayTriangleIntersect localStart rayDir rayLength va vb vc"
    using collinear_a_zero collinear_no_hit by blast
  have d: "selectedObject h = Some (path, ob)
        \<longrightarrow> (\<exists>ev. events (bakeAmbientOcclusion t h)
                     = ev @ [RedrawAll, PrintComplete (meshCount ob)])"
    using bakeAmbientOcclusion_events by blast
  from a b c d show ?thesis by blast
qed

theorem degenerate_geometry_witness:
  "\<not> rayIntersectsAnyMesh (Vec3D 1 2 3) (Vec3D 1 2 3) [\<lparr>mesh_core = singleTriangle, mesh_matrix = identityMatrix\<rparr>]
   \<and> rayIntersects_meshes (Vec3D (1/4) (1/4) 1) (Vec3D (1/4) (1/4) (- 1)) ([] @ collapsedMesh # [])
       = rayIntersects_meshes (Vec3D (1/4) (1/4) 1) (Vec3D (1/4) (1/4) (- 1)) ([] @ [])
   \<and> \<not> rayTriangleIntersect (Vec3D 1 0 1) (Vec3D 0 0 (- 1)) 2 (Vec3D 0 0 0) (Vec3D 1 0 0) (Vec3D 2 0 0)
   \<and> (\<exists>ev. events (bakeAmbientOcclusion defaultTool collapsedHost) = ev @ [RedrawAll, PrintComplete 1])"
  using degenerate_geometry [where rayEnd = "Vec3D 1 2 3" and rayStart = "Vec3D 1 2 3"
          and meshes = "[\<lparr>mesh_core = singleTriangle, mesh_matrix = identityMatrix\<rparr>]"
          and va = "Vec3D 0 0 0" and vb = "Vec3D 1 0 0" and vc = "Vec3D 2 0 0"
          and rayDir = "Vec3D 0 0 (- 1)" and localStart = "Vec3D 1 0 1" and rayLength = 2,
          THEN conjunct1]
        degenerate_geometry [where rayEnd = "Vec3D 1 2 3" and rayStart = "Vec3D 1 2 3"
          and meshes = "[\<lparr>mesh_core = singleTriangle, mesh_matrix = identityMatrix\<rparr>]"
          and va = "Vec3D 0 0 0" and vb = "Vec3D 1 0 0" and vc = "Vec3D 2 0 0"
          and rayDir = "Vec3D 0 0 (- 1)" and localStart = "Vec3D 1 0 1" and rayLength = 2,
          THEN conjunct2, THEN conjunct2, THEN conjunct1]
        degenerate_geometry [where rayEnd = "Vec3D (1/4) (1/4) (- 1)"
          and rayStart = "Vec3D (1/4) (1/4) 1" and m = collapsedMesh
          and pre = "[]" and post = "[]", THEN conjunct2, THEN conjunct1]
        degenerate_geometry [where h = collapsedHost and t = defaultTool and path = "[]"
          and ob = collapsedScene, THEN conjunct2, THEN conjunct2, THEN conjunct2]
  by (simp add: Vec3D_sub_def Vec3D_norm_def Vec3D_cross_def collapsedMesh_def Mat4D_inverse_def
      selectedObject_def collapsedHost_def collapsedScene_def vertexCount_singleTriangle)

text \<open>In double arithmetic the claim fails: for three exactly collinear vertices with
  coordinates around 100000 and a ray of unit direction given by doubles, the rounded
  determinant is 1579 / 2^30, above epsilon, and the test reports a hit at t about 3.1
  inside a segment of length 8; with exact arithmetic the same input is rejected.\<close>

theorem collinear_triangle_hit_counterexample:
  "Vec3D_cross (Vec3D_sub farB farA) (Vec3D_sub farC farA) = Vec3D 0 0 0
   \<and> binary64 (x3 grazingStart) = x3 grazingStart
   \<and> binary64 (y3 grazingStart) = y3 grazingStart
   \<and> binary64 (z3 grazingStart) = z3 grazingStart
   \<and> binary64 (x3 grazingDir) = x3 grazingDir
   \<and> binary64 (y3 grazingDir) = y3 grazingDir
   \<and> binary64 (z3 grazingDir) = z3 grazingDir
   \<and> rayTriangleIntersect_double grazingStart grazingDir 8 farA farB farC
   \<and> \<not> rayTriangleIntersect grazingStart grazingDir 8 farA farB farC"
proof -
  have f1: "double_sub 97293 6 = 97287"
    unfolding double_sub_def by (rule trans [OF binary64_frac [where n = 36 and m = "6685511733215232"]]) simp_all
  have f2: "double_sub (- 37532) 2 = (- 37534)"
    unfolding double_sub_def by (rule trans [OF binary64_frac [where n = 37 and m = "-5158633679618048"]]) simp_all
  have f3: "double_sub (- 1477) (- 3) = (- 1474)"
    unfolding double_sub_def by (rule trans [OF binary64_frac [where n = 42 and m = "-6482720557367296"]]) simp_all
  have f4: "double_sub 194580 6 = 194574"
    unfolding double_sub_def by (rule trans [OF binary64_frac [where n = 35 and m = "6685511733215232"]]) simp_all
  have f5: "double_sub (- 75066) 2 = (- 75068)"
    unfolding double_sub_def by (rule trans [OF binary64_frac [where n = 36 and m = "-5158633679618048"]]) simp_all
  have f6: "double_sub (- 2951) (- 3) = (- 2948)"
    unfolding double_sub_def by (rule trans [OF binary64_frac [where n = 41 and m = "-6482720557367296"]]) simp_all
  have f7: "double_mul (- (2782601316094467 / 72057594037927936)) (- 2948) = (8010848320162587 / 70368744177664)"
    unfolding double_mul_def by (rule trans [OF binary64_frac [where n = 46 and m = "8010848320162587"]]) simp_all
  have f8: "double_mul (- (4442972124634033 / 4503599627370496)) (- 75068) = (5089188101990167 / 68719476736)"
    unfolding double_mul_def by (rule trans [OF binary64_frac [where n = 36 and m = "5089188101990167"]]) simp_all
  have f9: "double_sub (8010848320162587 / 70368744177664) (5089188101990167 / 68719476736) = (- (1270341251981877 / 17179869184))"
    unfolding double_sub_def by (rule trans [OF binary64_frac [where n = 36 and m = "-5081365007927508"]]) simp_all
  have f10: "double_mul (- (4442972124634033 / 4503599627370496)) 194574 = (- (6595511308124865 / 34359738368))"
    unfolding double_mul_def by (rule trans [OF binary64_frac [where n = 35 and m = "-6595511308124865"]]) simp_all
  have f11: "double_mul (5725243566436355 / 36028797018963968) (- 2948) = (- (2060304935773239 / 4398046511104))"
    unfolding double_mul_def by (rule trans [OF binary64_frac [where n = 44 and m = "-8241219743092956"]]) simp_all
  have f12: "double_sub (- (6595511308124865 / 34359738368)) (- (2060304935773239 / 4398046511104)) = (- (6579415175814137 / 34359738368))"
    unfolding double_sub_def by (rule trans [OF binary64_frac [where n = 35 and m = "-6579415175814137"]]) simp_all
  have f13: "double_mul (5725243566436355 / 36028797018963968) (- 75068) = (- (6557961792682561 / 549755813888))"
    unfolding double_mul_def by (rule trans [OF binary64_frac [where n = 39 and m = "-6557961792682561"]]) simp_all
  have f14: "double_mul (- (2782601316094467 / 72057594037927936)) 194574 = (- (8261442084926831 / 1099511627776))"
    unfolding double_mul_def by (rule trans [OF binary64_frac [where n = 40 and m = "-8261442084926831"]]) simp_all
  have f15: "double_sub (- (6557961792682561 / 549755813888)) (- (8261442084926831 / 1099511627776)) = (- (4854481500438291 / 1099511627776))"
    unfolding double_sub_def by (rule trans [OF binary64_frac [where n = 40 and m = "-4854481500438291"]]) simp_all
  have f16: "double_mul 97287 (- (1270341251981877 / 17179869184)) = (- (7543193931980033 / 1048576))"
    unfolding double_mul_def by (rule trans [OF binary64_frac [where n = 20 and m = "-7543193931980033"]]) simp_all
  have f17: "double_mul (- 37534) (- (6579415175814137 / 34359738368)) = (3768184954971433 / 524288)"
    unfolding double_mul_def by (rule trans [OF binary64_frac [where n = 20 and m = "7536369909942866"]]) simp_all
  have f18: "double_add (- (7543193931980033 / 1048576)) (3768184954971433 / 524288) = (- (6824022037167 / 1048576))"
    unfolding double_add_def by (rule trans [OF binary64_frac [where n = 30 and m = "-6987798566059008"]]) simp_all
  have f19: "double_mul (- 1474) (- (4854481500438291 / 1099511627776)) = (6987798566060587 / 1073741824)"
    unfolding double_mul_def by (rule trans [OF binary64_frac [where n = 30 and m = "6987798566060587"]]) simp_all
  have f20: "double_add (- (6824022037167 / 1048576)) (6987798566060587 / 1073741824) = (1579 / 1073741824)"
    unfolding double_add_def by (rule trans [OF binary64_frac [where n = 72 and m = "6944515441033216"]]) simp_all
  have f21: "double_div 1 (1579 / 1073741824) = (5841274247533107 / 8589934592)"
    unfolding double_div_def by (rule trans [OF binary64_frac [where n = 33 and m = "5841274247533107"]]) simp_all
  have f22: "double_sub (8998029422428837 / 8796093022208) 6 = (8945252864295589 / 8796093022208)"
    unfolding double_sub_def by (rule trans [OF binary64_frac [where n = 43 and m = "8945252864295589"]]) simp_all
  have f23: "double_sub (- (6868582657278115 / 17592186044416)) 2 = (- (6903767029366947 / 17592186044416))"
    unfolding double_sub_def by (rule trans [OF binary64_frac [where n = 44 and m = "-6903767029366947"]]) simp_all
  have f24: "double_sub (- (1037600685938557 / 70368744177664)) (- 3) = (- (826494453405565 / 70368744177664))"
    unfolding double_sub_def by (rule trans [OF binary64_frac [where n = 49 and m = "-6611955627244520"]]) simp_all
  have f25: "double_mul (8945252864295589 / 8796093022208) (- (1270341251981877 / 17179869184)) = (- (5046418271225641 / 67108864))"
    unfolding double_mul_def by (rule trans [OF binary64_frac [where n = 26 and m = "-5046418271225641"]]) simp_all
  have f26: "double_mul (- (6903767029366947 / 17592186044416)) (- (6579415175814137 / 34359738368)) = (5042938240696035 / 67108864)"
    unfolding double_mul_def by (rule trans [OF binary64_frac [where n = 26 and m = "5042938240696035"]]) simp_all
  have f27: "double_add (- (5046418271225641 / 67108864)) (5042938240696035 / 67108864) = (- (1740015264803 / 33554432))"
    unfolding double_add_def by (rule trans [OF binary64_frac [where n = 37 and m = "-7127102524633088"]]) simp_all
  have f28: "double_mul (- (826494453405565 / 70368744177664)) (- (4854481500438291 / 1099511627776)) = (1781775631158743 / 34359738368)"
    unfolding double_mul_def by (rule trans [OF binary64_frac [where n = 37 and m = "7127102524634972"]]) simp_all
  have f29: "double_add (- (1740015264803 / 33554432)) (1781775631158743 / 34359738368) = (471 / 34359738368)"
    unfolding double_add_def by (rule trans [OF binary64_frac [where n = 79 and m = "8285919626919936"]]) simp_all
  have f30: "double_mul (5841274247533107 / 8589934592) (471 / 34359738368) = (2686757979089935 / 288230376151711744)"
    unfolding double_mul_def by (rule trans [OF binary64_frac [where n = 59 and m = "5373515958179870"]]) simp_all
  have f31: "double_mul (- (6903767029366947 / 17592186044416)) (- 1474) = (4968824512347109 / 8589934592)"
    unfolding double_mul_def by (rule trans [OF binary64_frac [where n = 33 and m = "4968824512347109"]]) simp_all
  have f32: "double_mul (- (826494453405565 / 70368744177664)) (- 37534) = (7573643265167109 / 17179869184)"
    unfolding double_mul_def by (rule trans [OF binary64_frac [where n = 34 and m = "7573643265167109"]]) simp_all
  have f33: "double_sub (4968824512347109 / 8589934592) (7573643265167109 / 17179869184) = (2364005759527109 / 17179869184)"
    unfolding double_sub_def by (rule trans [OF binary64_frac [where n = 35 and m = "4728011519054218"]]) simp_all
  have f34: "double_mul (- (826494453405565 / 70368744177664)) 97287 = (- (2453831966811133 / 2147483648))"
    unfolding double_mul_def by (rule trans [OF binary64_frac [where n = 32 and m = "-4907663933622266"]]) simp_all
  have f35: "double_mul (8945252864295589 / 8796093022208) (- 1474) = (- (6438136094712743 / 4294967296))"
    unfolding double_mul_def by (rule trans [OF binary64_frac [where n = 32 and m = "-6438136094712743"]]) simp_all
  have f36: "double_sub (- (2453831966811133 / 2147483648)) (- (6438136094712743 / 4294967296)) = (1530472161090477 / 4294967296)"
    unfolding double_sub_def by (rule trans [OF binary64_frac [where n = 34 and m = "6121888644361908"]]) simp_all
  have f37: "double_mul (8945252864295589 / 8796093022208) (- 37534) = (- (2561577766483083 / 67108864))"
    unfolding double_mul_def by (rule trans [OF binary64_frac [where n = 27 and m = "-5123155532966166"]]) simp_all
  have f38: "double_mul (- (6903767029366947 / 17592186044416)) 97287 = (- (5124258293045213 / 134217728))"
    unfolding double_mul_def by (rule trans [OF binary64_frac [where n = 27 and m = "-5124258293045213"]]) simp_all
  have f39: "double_sub (- (2561577766483083 / 67108864)) (- (5124258293045213 / 134217728)) = (1102760079047 / 134217728)"
    unfolding double_sub_def by (rule trans [OF binary64_frac [where n = 39 and m = "4516905283776512"]]) simp_all
  have f40: "double_mul (5725243566436355 / 36028797018963968) (2364005759527109 / 17179869184) = (6010529303491139 / 274877906944)"
    unfolding double_mul_def by (rule trans [OF binary64_frac [where n = 38 and m = "6010529303491139"]]) simp_all
  have f41: "double_mul (- (2782601316094467 / 72057594037927936)) (1530472161090477 / 4294967296) = (- (7564959946819813 / 549755813888))"
    unfolding double_mul_def by (rule trans [OF binary64_frac [where n = 39 and m = "-7564959946819813"]]) simp_all
  have f42: "double_add (6010529303491139 / 274877906944) (- (7564959946819813 / 549755813888)) = (4456098660162465 / 549755813888)"
    unfolding double_add_def by (rule trans [OF binary64_frac [where n = 40 and m = "8912197320324930"]]) simp_all
  have f43: "double_mul (- (4442972124634033 / 4503599627370496)) (1102760079047 / 134217728) = (- (2228049330080941 / 274877906944))"
    unfolding double_mul_def by (rule trans [OF binary64_frac [where n = 40 and m = "-8912197320323764"]]) simp_all
  have f44: "double_add (4456098660162465 / 549755813888) (- (2228049330080941 / 274877906944)) = (583 / 549755813888)"
    unfolding double_add_def by (rule trans [OF binary64_frac [where n = 82 and m = "5128122231947264"]]) simp_all
  have f45: "double_mul (5841274247533107 / 8589934592) (583 / 549755813888) = (6651294699827737 / 9223372036854775808)"
    unfolding double_mul_def by (rule trans [OF binary64_frac [where n = 63 and m = "6651294699827737"]]) simp_all
  have f46: "double_add (2686757979089935 / 288230376151711744) (6651294699827737 / 9223372036854775808) = (90456591826861 / 9007199254740992)"
    unfolding double_add_def by (rule trans [OF binary64_frac [where n = 59 and m = "5789221876919104"]]) simp_all
  have f47: "double_mul 194574 (2364005759527109 / 17179869184) = (7018647104709285 / 262144)"
    unfolding double_mul_def by (rule trans [OF binary64_frac [where n = 18 and m = "7018647104709285"]]) simp_all
  have f48: "double_mul (- 75068) (1530472161090477 / 4294967296) = (- (3506148809470823 / 131072))"
    unfolding double_mul_def by (rule trans [OF binary64_frac [where n = 18 and m = "-7012297618941646"]]) simp_all
  have f49: "double_add (7018647104709285 / 262144) (- (3506148809470823 / 131072)) = (6349485767639 / 262144)"
    unfolding double_add_def by (rule trans [OF binary64_frac [where n = 28 and m = "6501873426062336"]]) simp_all
  have f50: "double_mul (- 2948) (1102760079047 / 134217728) = (- (812734178257639 / 33554432))"
    unfolding double_mul_def by (rule trans [OF binary64_frac [where n = 28 and m = "-6501873426061112"]]) simp_all
  have f51: "double_add (6349485767639 / 262144) (- (812734178257639 / 33554432)) = (153 / 33554432)"
    unfolding double_add_def by (rule trans [OF binary64_frac [where n = 70 and m = "5383208929591296"]]) simp_all
  have f52: "double_mul (5841274247533107 / 8589934592) (153 / 33554432) = (6982148124004417 / 2251799813685248)"
    unfolding double_mul_def by (rule trans [OF binary64_frac [where n = 51 and m = "6982148124004417"]]) simp_all
  have eps: "epsilon_double = (4722366482869645 / 4722366482869645213696)"
    unfolding epsilon_double_def epsilon_def by (rule trans [OF binary64_frac [where n = 72 and m = "4722366482869645"]]) simp_all
  have r1: "binary64 (8998029422428837 / 8796093022208) = (8998029422428837 / 8796093022208)"
    by (rule trans [OF binary64_frac [where n = 43 and m = "8998029422428837"]]) simp_all
  have r2: "binary64 (- (6868582657278115 / 17592186044416)) = (- (6868582657278115 / 17592186044416))"
    by (rule trans [OF binary64_frac [where n = 44 and m = "-6868582657278115"]]) simp_all
  have r3: "binary64 (- (1037600685938557 / 70368744177664)) = (- (1037600685938557 / 70368744177664))"
    by (rule trans [OF binary64_frac [where n = 49 and m = "-8300805487508456"]]) simp_all
  have r4: "binary64 (5725243566436355 / 36028797018963968) = (5725243566436355 / 36028797018963968)"
    by (rule trans [OF binary64_frac [where n = 55 and m = "5725243566436355"]]) simp_all
  have r5: "binary64 (- (2782601316094467 / 72057594037927936)) = (- (2782601316094467 / 72057594037927936))"
    by (rule trans [OF binary64_frac [where n = 57 and m = "-5565202632188934"]]) simp_all
  have r6: "binary64 (- (4442972124634033 / 4503599627370496)) = (- (4442972124634033 / 4503599627370496))"
    by (rule trans [OF binary64_frac [where n = 53 and m = "-8885944249268066"]]) simp_all
  have c: "Vec3D_cross (Vec3D_sub farB farA) (Vec3D_sub farC farA) = Vec3D 0 0 0"
    by (simp add: farA_def farB_def farC_def Vec3D_sub_def Vec3D_cross_def)
  have d: "binary64 (x3 grazingStart) = x3 grazingStart
     \<and> binary64 (y3 grazingStart) = y3 grazingStart
     \<and> binary64 (z3 grazingStart) = z3 grazingStart
     \<and> binary64 (x3 grazingDir) = x3 grazingDir
     \<and> binary64 (y3 grazingDir) = y3 grazingDir
     \<and> binary64 (z3 grazingDir) = z3 grazingDir"
    unfolding grazingStart_def grazingDir_def vec3.sel
    by (simp only: r1 r2 r3 r4 r5 r6 simp_thms)
  have h: "rayTriangleIntersect_double grazingStart grazingDir 8 farA farB farC"
    unfolding rayTriangleIntersect_double_def farA_def farB_def farC_def grazingStart_def
      grazingDir_def Vec3D_sub_double_def Vec3D_dot_double_def Vec3D_cross_double_def Let_def
      vec3.sel
    apply (simp only: f1 f2 f3 f4 f5 f6 f7 f8 f9 f10 f11 f12 f13 f14 f15 f16 f17 f18 f19 f20 f21 f22 f23 f24 f25 f26 f27 f28 f29 f30 f31 f32 f33 f34 f35 f36 f37 f38 f39 f40 f41 f42 f43 f44 f45 f46 f47 f48 f49 f50 f51 f52 eps)
    apply simp
    done
  have x: "\<not> rayTriangleIntersect grazingStart grazingDir 8 farA farB farC"
    by (rule collinear_no_hit [OF c])
  from c d h x show ?thesis by blast
qed

end
